theory Spec2Isabelle
  imports Complex_Main
begin

section \<open>Values exchanged with the service\<close>

text \<open>
  The service (\<^verbatim>\<open>backend/app.py\<close>) is a Flask application around two fitted
  scikit-learn objects. The values it receives and returns are Python objects read from and
  written to JSON: \<^verbatim>\<open>None\<close>, booleans, unbounded integers, floats, strings, lists and
  dictionaries. The float type is a parameter \<open>'f\<close>: the code only compares floats
  (\<^verbatim>\<open>max\<close>), tests them for zero (truth value), multiplies them by 100 and rounds
  them, and the last two are passed in as functions, so no property below depends on how
  floats are represented. A dictionary is an association list read through \<open>map_of\<close>.
\<close>

datatype 'f json =
    JNull
  | JBool bool
  | JInt int
  | JFloat 'f
  | JStr string
  | JArr "'f json list"
  | JObj "(string \<times> 'f json) list"

text \<open>
  An exception: its class and the message \<^verbatim>\<open>str(e)\<close> gives. The wording of the
  interpreter's own messages differs between versions of Python; it is given as one of them
  has it, and no property below depends on it.
\<close>

datatype pyexn = PyExn (exn_class: string) (exn_message: string)

text \<open>
  What a view returns to the client: a JSON body with a status code, or (when the view lets
  an exception escape) the framework's own answer to an unhandled exception.
\<close>

datatype 'f response =
    Json_response nat "'f json"
  | Unhandled pyexn

definition jsonify :: "'f json \<Rightarrow> 'f response" where
  "jsonify body = Json_response 200 body"

definition jsonify_status :: "'f json \<Rightarrow> nat \<Rightarrow> 'f response" where
  "jsonify_status body code = Json_response code body"

fun status_of :: "'f response \<Rightarrow> nat" where
  "status_of (Json_response code body) = code"
| "status_of (Unhandled e) = 500"

fun field :: "string \<Rightarrow> 'f response \<Rightarrow> 'f json option" where
  "field k (Json_response code (JObj kvs)) = map_of kvs k"
| "field k r = None"

section \<open>The Python operations the views apply to request data\<close>

text \<open>\<^verbatim>\<open>not data\<close>: the truth value of a JSON-decoded object, negated.\<close>

fun py_not :: "'f::zero json \<Rightarrow> bool" where
  "py_not JNull = True"
| "py_not (JBool b) = (\<not> b)"
| "py_not (JInt n) = (n = 0)"
| "py_not (JFloat x) = (x = 0)"
| "py_not (JStr s) = (s = [])"
| "py_not (JArr xs) = (xs = [])"
| "py_not (JObj kvs) = (kvs = [])"

fun is_prefix :: "string \<Rightarrow> string \<Rightarrow> bool" where
  "is_prefix [] s = True"
| "is_prefix (c # cs) [] = False"
| "is_prefix (c # cs) (d # ds) = (c = d \<and> is_prefix cs ds)"

fun is_substring :: "string \<Rightarrow> string \<Rightarrow> bool" where
  "is_substring k [] = (k = [])"
| "is_substring k (c # cs) = (is_prefix k (c # cs) \<or> is_substring k cs)"

fun type_name :: "'f json \<Rightarrow> string" where
  "type_name JNull = ''NoneType''"
| "type_name (JBool b) = ''bool''"
| "type_name (JInt n) = ''int''"
| "type_name (JFloat x) = ''float''"
| "type_name (JStr s) = ''str''"
| "type_name (JArr xs) = ''list''"
| "type_name (JObj kvs) = ''dict''"

text \<open>
  \<^verbatim>\<open>key in data\<close> for a string key: key membership for a dictionary, element
  membership for a list, substring test for a string, \<^verbatim>\<open>TypeError\<close> otherwise.
\<close>

fun py_contains :: "string \<Rightarrow> 'f json \<Rightarrow> pyexn + bool" where
  "py_contains k (JObj kvs) = Inr (k \<in> set (map fst kvs))"
| "py_contains k (JArr xs) = Inr (JStr k \<in> set xs)"
| "py_contains k (JStr s) = Inr (is_substring k s)"
| "py_contains k v =
     Inl (PyExn ''TypeError'' (''argument of type '' @ [CHR 0x27] @ type_name v @ [CHR 0x27] @ '' is not iterable''))"

text \<open>\<^verbatim>\<open>data[key]\<close> for a string key.\<close>

fun py_getitem :: "'f json \<Rightarrow> string \<Rightarrow> pyexn + 'f json" where
  "py_getitem (JObj kvs) k =
     (case map_of kvs k of
        Some v \<Rightarrow> Inr v
      | None \<Rightarrow> Inl (PyExn ''KeyError'' ([CHR 0x27] @ k @ [CHR 0x27])))"
| "py_getitem (JArr xs) k =
     Inl (PyExn ''TypeError'' ''list indices must be integers or slices, not str'')"
| "py_getitem (JStr s) k =
     Inl (PyExn ''TypeError'' ''string indices must be integers'')"
| "py_getitem v k =
     Inl (PyExn ''TypeError'' ([CHR 0x27] @ type_name v @ [CHR 0x27] @ '' object is not subscriptable''))"

text \<open>\<^verbatim>\<open>len(features)\<close>; a dictionary counts its distinct keys.\<close>

fun py_len :: "'f json \<Rightarrow> pyexn + nat" where
  "py_len (JStr s) = Inr (length s)"
| "py_len (JArr xs) = Inr (length xs)"
| "py_len (JObj kvs) = Inr (length (remdups (map fst kvs)))"
| "py_len v =
     Inl (PyExn ''TypeError'' (''object of type '' @ [CHR 0x27] @ type_name v @ [CHR 0x27] @ '' has no len()''))"

text \<open>The decimal digits of a natural number, as an f-string prints \<^verbatim>\<open>{len(features)}\<close>.\<close>

fun str_nat :: "nat \<Rightarrow> string" where
  "str_nat n =
     (if n < 10 then [''0123456789'' ! n]
      else str_nat (n div 10) @ [''0123456789'' ! (n mod 10)])"

declare str_nat.simps [simp del]

text \<open>
  \<^verbatim>\<open>max(prediction_proba)\<close>: the first largest item; \<^verbatim>\<open>ValueError\<close> on an empty
  sequence.
\<close>

fun py_max :: "'f::linorder list \<Rightarrow> pyexn + 'f" where
  "py_max [] = Inl (PyExn ''ValueError'' ''max() arg is an empty sequence'')"
| "py_max (x # xs) = Inr (fold (\<lambda>y m. if m < y then y else m) xs x)"

text \<open>\<^verbatim>\<open>a[i]\<close> on a one-dimensional array.\<close>

definition index_array :: "'x list \<Rightarrow> nat \<Rightarrow> pyexn + 'x" where
  "index_array xs i =
     (if i < length xs then Inr (xs ! i)
      else Inl (PyExn ''IndexError''
                 (''index '' @ str_nat i @ '' is out of bounds for axis 0 with size '' @ str_nat (length xs))))"

text \<open>A JSON number: an integer or a float.\<close>

definition is_number :: "'f json \<Rightarrow> bool" where
  "is_number v = (case v of JInt n \<Rightarrow> True | JFloat x \<Rightarrow> True | _ \<Rightarrow> False)"

section \<open>The fitted objects and the module's globals\<close>

text \<open>
  The scaler and the classifier are objects of a third-party library; the service only calls
  their methods. An object is the record of the methods the code calls on it, each a
  function from its argument to the value it returns or the exception it raises. \<open>'a\<close>
  is the type of array-like values (\<^verbatim>\<open>ndarray\<close>, \<^verbatim>\<open>DataFrame\<close>,
  \<^verbatim>\<open>Series\<close>). \<^verbatim>\<open>predict\<close> returns an array of integer class labels,
  \<^verbatim>\<open>predict_proba\<close> an array with one row of class probabilities per sample.
\<close>

record 'a scaler_obj =
  scaler_transform :: "'a \<Rightarrow> pyexn + 'a"

record ('f, 'a) model_obj =
  model_predict :: "'a \<Rightarrow> pyexn + int list"
  model_predict_proba :: "'a \<Rightarrow> pyexn + 'f list list"

text \<open>
  The three module-level globals (lines 15--18), \<^verbatim>\<open>None\<close> until
  \<^verbatim>\<open>load_model\<close> has assigned them.
\<close>

record ('f, 'a) globals =
  model :: "('f, 'a) model_obj option"
  scaler :: "'a scaler_obj option"
  feature_names :: "string list option"

text \<open>
  The operations of numpy and of Python floats that \<^verbatim>\<open>predict\<close> uses:
  \<^verbatim>\<open>np.array(features).reshape(1, -1)\<close>, \<^verbatim>\<open>x * 100\<close> and
  \<^verbatim>\<open>round(x, 2)\<close>.
\<close>

record ('f, 'a) numerics =
  np_array_reshape :: "'f json \<Rightarrow> pyexn + 'a"
  times100 :: "'f \<Rightarrow> 'f"
  round2 :: "'f \<Rightarrow> 'f"

text \<open>A call of a method of the scaler or of the classifier, with its argument.\<close>

datatype 'a call =
    Call_transform 'a
  | Call_predict 'a
  | Call_predict_proba 'a

definition attribute_error :: "string \<Rightarrow> pyexn" where
  "attribute_error name =
     PyExn ''AttributeError''
       ([CHR 0x27] @ ''NoneType'' @ [CHR 0x27] @ '' object has no attribute '' @ [CHR 0x27] @ name @ [CHR 0x27])"

section \<open>The views\<close>

subsection \<open>\<^verbatim>\<open>predict\<close> (lines 67--107)\<close>

text \<open>
  Lines 91--104, once the classifier has answered: the confidence, the result dictionary and
  the response. \<^verbatim>\<open>prediction_proba[0]\<close> and \<^verbatim>\<open>prediction_proba[1]\<close>
  raise \<^verbatim>\<open>IndexError\<close> on a shorter row.
\<close>

definition predict_result ::
  "('f::linorder, 'a) numerics \<Rightarrow> int \<Rightarrow> 'f list \<Rightarrow> pyexn + 'f response" where
  "predict_result N prediction prediction_proba =
     (case py_max prediction_proba of
        Inl e \<Rightarrow> Inl e
      | Inr m \<Rightarrow>
          let confidence = times100 N m in
          (case index_array prediction_proba 0 of
             Inl e \<Rightarrow> Inl e
           | Inr p0 \<Rightarrow>
               (case index_array prediction_proba 1 of
                  Inl e \<Rightarrow> Inl e
                | Inr p1 \<Rightarrow>
                    Inr (jsonify (JObj
                      [(''prediction'', JInt prediction),
                       (''label'', JStr (if prediction = 1 then ''Benign'' else ''Malignant'')),
                       (''confidence'', JFloat (round2 N confidence)),
                       (''probabilities'', JObj
                          [(''malignant'', JFloat (round2 N (times100 N p0))),
                           (''benign'', JFloat (round2 N (times100 N p1)))])])))))"

text \<open>
  Lines 81--104: the array, the scaler, the classifier. The second component lists the
  calls made on the scaler and the classifier, in order.
\<close>

definition predict_infer ::
  "('f::linorder, 'a) numerics \<Rightarrow> ('f, 'a) globals \<Rightarrow> 'f json
     \<Rightarrow> (pyexn + 'f response) \<times> 'a call list" where
  "predict_infer N g features =
     (case np_array_reshape N features of
        Inl e \<Rightarrow> (Inl e, [])
      | Inr input_array \<Rightarrow>
          (case scaler g of
             None \<Rightarrow> (Inl (attribute_error ''transform''), [])
           | Some sc \<Rightarrow>
               (case scaler_transform sc input_array of
                  Inl e \<Rightarrow> (Inl e, [Call_transform input_array])
                | Inr input_scaled \<Rightarrow>
                    (case model g of
                       None \<Rightarrow> (Inl (attribute_error ''predict''), [Call_transform input_array])
                     | Some m \<Rightarrow>
                         (case model_predict m input_scaled of
                            Inl e \<Rightarrow>
                              (Inl e, [Call_transform input_array, Call_predict input_scaled])
                          | Inr predictions \<Rightarrow>
                              (case index_array predictions 0 of
                                 Inl e \<Rightarrow>
                                   (Inl e, [Call_transform input_array, Call_predict input_scaled])
                               | Inr prediction \<Rightarrow>
                                   (case model_predict_proba m input_scaled of
                                      Inl e \<Rightarrow>
                                        (Inl e, [Call_transform input_array, Call_predict input_scaled,
                                                 Call_predict_proba input_scaled])
                                    | Inr rows \<Rightarrow>
                                        (case index_array rows 0 of
                                           Inl e \<Rightarrow>
                                             (Inl e, [Call_transform input_array, Call_predict input_scaled,
                                                      Call_predict_proba input_scaled])
                                         | Inr prediction_proba \<Rightarrow>
                                             (predict_result N prediction prediction_proba,
                                              [Call_transform input_array, Call_predict input_scaled,
                                               Call_predict_proba input_scaled])))))))))"

text \<open>
  Lines 71--79: the body of the request and the two checks. \<open>req\<close> is what
  \<^verbatim>\<open>request.get_json()\<close> returns or raises.
\<close>

definition predict_try ::
  "('f::{zero,linorder}, 'a) numerics \<Rightarrow> ('f, 'a) globals \<Rightarrow> pyexn + 'f json
     \<Rightarrow> (pyexn + 'f response) \<times> 'a call list" where
  "predict_try N g req =
     (case req of
        Inl e \<Rightarrow> (Inl e, [])
      | Inr data \<Rightarrow>
          (case (if py_not data then Inr True
                 else (case py_contains ''features'' data of
                         Inl e \<Rightarrow> Inl e
                       | Inr b \<Rightarrow> Inr (\<not> b))) of
             Inl e \<Rightarrow> (Inl e, [])
           | Inr True \<Rightarrow>
               (Inr (jsonify_status (JObj [(''error'', JStr ''No features provided'')]) 400), [])
           | Inr False \<Rightarrow>
               (case py_getitem data ''features'' of
                  Inl e \<Rightarrow> (Inl e, [])
                | Inr features \<Rightarrow>
                    (case py_len features of
                       Inl e \<Rightarrow> (Inl e, [])
                     | Inr n \<Rightarrow>
                         if n \<noteq> 30
                         then (Inr (jsonify_status
                                 (JObj [(''error'', JStr (''Expected 30 features, got '' @ str_nat n))])
                                 400), [])
                         else predict_infer N g features))))"

text \<open>The \<^verbatim>\<open>try\<close> with its handler (lines 106--107).\<close>

definition predict ::
  "('f::{zero,linorder}, 'a) numerics \<Rightarrow> ('f, 'a) globals \<Rightarrow> pyexn + 'f json
     \<Rightarrow> 'f response \<times> 'a call list" where
  "predict N g req =
     (case predict_try N g req of
        (Inl e, calls) \<Rightarrow> (jsonify_status (JObj [(''error'', JStr (exn_message e))]) 500, calls)
      | (Inr r, calls) \<Rightarrow> (r, calls))"

subsection \<open>The other views (lines 59--65 and 109--122)\<close>

definition get_features :: "('f, 'a) globals \<Rightarrow> 'f response" where
  "get_features g =
     (case feature_names g of
        None \<Rightarrow>
          Unhandled (PyExn ''TypeError''
            (''object of type '' @ [CHR 0x27] @ ''NoneType'' @ [CHR 0x27] @ '' has no len()''))
      | Some names \<Rightarrow>
          jsonify (JObj
            [(''features'', JArr (map JStr names)),
             (''count'', JInt (int (length names)))]))"

definition model_info :: "'f response" where
  "model_info =
     jsonify (JObj
       [(''model_type'', JStr ''Logistic Regression''),
        (''features_count'', JInt 30),
        (''classes'', JArr [JStr ''Malignant (0)'', JStr ''Benign (1)'']),
        (''description'',
           JStr ''Breast Cancer Detection Model trained on Wisconsin Breast Cancer Dataset'')])"

definition health :: "('f, 'a) globals \<Rightarrow> 'f response" where
  "health g =
     jsonify (JObj
       [(''status'', JStr ''healthy''),
        (''model_loaded'', JBool (model g \<noteq> None))])"

subsection \<open>The application: one request against the globals\<close>

text \<open>
  The four API routes. No view declares a name \<^verbatim>\<open>global\<close> or assigns to one, so
  each returns the globals it was given; the methods of the fitted objects are functions of
  their argument.
\<close>

datatype 'f request =
    GET_features
  | POST_predict "pyexn + 'f json"
  | GET_model_info
  | GET_health

fun serve ::
  "('f::{zero,linorder}, 'a) numerics \<Rightarrow> ('f, 'a) globals \<Rightarrow> 'f request
     \<Rightarrow> ('f response \<times> 'a call list) \<times> ('f, 'a) globals" where
  "serve N g GET_features = ((get_features g, []), g)"
| "serve N g (POST_predict req) = (predict N g req, g)"
| "serve N g GET_model_info = ((model_info, []), g)"
| "serve N g GET_health = ((health g, []), g)"

subsection \<open>Objects that a method may modify\<close>

text \<open>
  In Python a method works on the object it is called on and may change it. The records
  \<open>scaler_obj\<close> and \<open>model_obj\<close> above give each inference method as a function of
  its argument alone, which is what a method that leaves its object alone is. To say what
  a request does to the objects behind the globals, this subsection runs the same views
  with methods that also return their object as the call leaves it. \<open>'s\<close> and \<open>'m\<close>
  are the states of a scaler and of a classifier.
\<close>

record ('f, 'a, 's, 'm) methods =
  transform_method :: "'s \<Rightarrow> 'a \<Rightarrow> (pyexn + 'a) \<times> 's"
  predict_method :: "'m \<Rightarrow> 'a \<Rightarrow> (pyexn + int list) \<times> 'm"
  predict_proba_method :: "'m \<Rightarrow> 'a \<Rightarrow> (pyexn + 'f list list) \<times> 'm"

text \<open>The three globals, holding the objects themselves.\<close>

record ('s, 'm) heap =
  the_model :: "'m option"
  the_scaler :: "'s option"
  the_feature_names :: "string list option"

text \<open>Lines 81--104 again; an object changed by a call stays changed, also when the
  call or a later step raises.\<close>

definition predict_infer_on ::
  "('f::linorder, 'a) numerics \<Rightarrow> ('f, 'a, 's, 'm) methods \<Rightarrow> ('s, 'm) heap \<Rightarrow> 'f json
     \<Rightarrow> ((pyexn + 'f response) \<times> 'a call list) \<times> ('s, 'm) heap" where
  "predict_infer_on N M h features =
     (case np_array_reshape N features of
        Inl e \<Rightarrow> ((Inl e, []), h)
      | Inr input_array \<Rightarrow>
          (case the_scaler h of
             None \<Rightarrow> ((Inl (attribute_error ''transform''), []), h)
           | Some sc \<Rightarrow>
               (case transform_method M sc input_array of
                  (Inl e, sc') \<Rightarrow>
                    ((Inl e, [Call_transform input_array]), h\<lparr>the_scaler := Some sc'\<rparr>)
                | (Inr input_scaled, sc') \<Rightarrow>
                    (let h1 = h\<lparr>the_scaler := Some sc'\<rparr> in
                     case the_model h1 of
                       None \<Rightarrow>
                         ((Inl (attribute_error ''predict''), [Call_transform input_array]), h1)
                     | Some m \<Rightarrow>
                         (case predict_method M m input_scaled of
                            (Inl e, m') \<Rightarrow>
                              ((Inl e, [Call_transform input_array, Call_predict input_scaled]),
                               h1\<lparr>the_model := Some m'\<rparr>)
                          | (Inr predictions, m') \<Rightarrow>
                              (let h2 = h1\<lparr>the_model := Some m'\<rparr> in
                               case index_array predictions 0 of
                                 Inl e \<Rightarrow>
                                   ((Inl e, [Call_transform input_array, Call_predict input_scaled]),
                                    h2)
                               | Inr prediction \<Rightarrow>
                                   (case predict_proba_method M m' input_scaled of
                                      (Inl e, m'') \<Rightarrow>
                                        ((Inl e, [Call_transform input_array, Call_predict input_scaled,
                                                  Call_predict_proba input_scaled]),
                                         h2\<lparr>the_model := Some m''\<rparr>)
                                    | (Inr rows, m'') \<Rightarrow>
                                        (let h3 = h2\<lparr>the_model := Some m''\<rparr> in
                                         case index_array rows 0 of
                                           Inl e \<Rightarrow>
                                             ((Inl e, [Call_transform input_array,
                                                       Call_predict input_scaled,
                                                       Call_predict_proba input_scaled]), h3)
                                         | Inr prediction_proba \<Rightarrow>
                                             ((predict_result N prediction prediction_proba,
                                               [Call_transform input_array, Call_predict input_scaled,
                                                Call_predict_proba input_scaled]), h3)))))))))"

text \<open>Lines 71--79 again; the checks call no method.\<close>

definition predict_try_on ::
  "('f::{zero,linorder}, 'a) numerics \<Rightarrow> ('f, 'a, 's, 'm) methods \<Rightarrow> ('s, 'm) heap
     \<Rightarrow> pyexn + 'f json \<Rightarrow> ((pyexn + 'f response) \<times> 'a call list) \<times> ('s, 'm) heap" where
  "predict_try_on N M h req =
     (case req of
        Inl e \<Rightarrow> ((Inl e, []), h)
      | Inr data \<Rightarrow>
          (case (if py_not data then Inr True
                 else (case py_contains ''features'' data of
                         Inl e \<Rightarrow> Inl e
                       | Inr b \<Rightarrow> Inr (\<not> b))) of
             Inl e \<Rightarrow> ((Inl e, []), h)
           | Inr True \<Rightarrow>
               ((Inr (jsonify_status (JObj [(''error'', JStr ''No features provided'')]) 400), []), h)
           | Inr False \<Rightarrow>
               (case py_getitem data ''features'' of
                  Inl e \<Rightarrow> ((Inl e, []), h)
                | Inr features \<Rightarrow>
                    (case py_len features of
                       Inl e \<Rightarrow> ((Inl e, []), h)
                     | Inr n \<Rightarrow>
                         if n \<noteq> 30
                         then ((Inr (jsonify_status
                                 (JObj [(''error'', JStr (''Expected 30 features, got '' @ str_nat n))])
                                 400), []), h)
                         else predict_infer_on N M h features))))"

definition predict_on ::
  "('f::{zero,linorder}, 'a) numerics \<Rightarrow> ('f, 'a, 's, 'm) methods \<Rightarrow> ('s, 'm) heap
     \<Rightarrow> pyexn + 'f json \<Rightarrow> ('f response \<times> 'a call list) \<times> ('s, 'm) heap" where
  "predict_on N M h req =
     (case predict_try_on N M h req of
        ((Inl e, calls), h') \<Rightarrow>
          ((jsonify_status (JObj [(''error'', JStr (exn_message e))]) 500, calls), h')
      | ((Inr r, calls), h') \<Rightarrow> ((r, calls), h'))"

definition get_features_on :: "('s, 'm) heap \<Rightarrow> 'f response" where
  "get_features_on h =
     (case the_feature_names h of
        None \<Rightarrow>
          Unhandled (PyExn ''TypeError''
            (''object of type '' @ [CHR 0x27] @ ''NoneType'' @ [CHR 0x27] @ '' has no len()''))
      | Some names \<Rightarrow>
          jsonify (JObj
            [(''features'', JArr (map JStr names)),
             (''count'', JInt (int (length names)))]))"

definition health_on :: "('s, 'm) heap \<Rightarrow> 'f response" where
  "health_on h =
     jsonify (JObj
       [(''status'', JStr ''healthy''),
        (''model_loaded'', JBool (the_model h \<noteq> None))])"

fun serve_on ::
  "('f::{zero,linorder}, 'a) numerics \<Rightarrow> ('f, 'a, 's, 'm) methods \<Rightarrow> ('s, 'm) heap
     \<Rightarrow> 'f request \<Rightarrow> ('f response \<times> 'a call list) \<times> ('s, 'm) heap" where
  "serve_on N M h GET_features = ((get_features_on h, []), h)"
| "serve_on N M h (POST_predict req) = predict_on N M h req"
| "serve_on N M h GET_model_info = ((model_info, []), h)"
| "serve_on N M h GET_health = ((health_on h, []), h)"

text \<open>
  The inference methods of a library leave their object alone: \<^verbatim>\<open>transform\<close>,
  \<^verbatim>\<open>predict\<close> and \<^verbatim>\<open>predict_proba\<close> return it as they got it.
\<close>

definition read_only :: "('f, 'a, 's, 'm) methods \<Rightarrow> bool" where
  "read_only M \<longleftrightarrow>
     (\<forall>s x. snd (transform_method M s x) = s)
     \<and> (\<forall>m x. snd (predict_method M m x) = m)
     \<and> (\<forall>m x. snd (predict_proba_method M m x) = m)"

text \<open>The objects of a heap as records of functions of the argument alone.\<close>

definition as_globals :: "('f, 'a, 's, 'm) methods \<Rightarrow> ('s, 'm) heap \<Rightarrow> ('f, 'a) globals" where
  "as_globals M h =
     \<lparr>model = map_option
                (\<lambda>m. \<lparr>model_predict = (\<lambda>x. fst (predict_method M m x)),
                       model_predict_proba = (\<lambda>x. fst (predict_proba_method M m x))\<rparr>)
                (the_model h),
      scaler = map_option
                 (\<lambda>s. \<lparr>scaler_transform = (\<lambda>x. fst (transform_method M s x))\<rparr>)
                 (the_scaler h),
      feature_names = the_feature_names h\<rparr>"

section \<open>Training at start-up: \<^verbatim>\<open>load_model\<close> (lines 20--52)\<close>

text \<open>
  What \<^verbatim>\<open>sklearn.datasets.load_breast_cancer()\<close> returns, as far as the code reads it:
  the data matrix, the target vector and the feature names (\<^verbatim>\<open>.tolist()\<close> of them).
\<close>

record 'a bunch =
  bunch_data :: 'a
  bunch_target :: 'a
  bunch_feature_names :: "string list"

text \<open>
  The library calls of \<^verbatim>\<open>load_model\<close>, in the order of the source:
  \<^verbatim>\<open>load_breast_cancer()\<close>, \<^verbatim>\<open>pd.DataFrame(data, columns=names)\<close>,
  \<^verbatim>\<open>frame[key] = column\<close> (the frame afterwards), \<^verbatim>\<open>frame.drop(columns=key, axis=1)\<close>,
  \<^verbatim>\<open>frame[key]\<close>, \<^verbatim>\<open>train_test_split(X, Y, test_size=t, random_state=r)\<close>,
  the constructor \<^verbatim>\<open>StandardScaler()\<close>, \<^verbatim>\<open>scaler.fit_transform(X)\<close>, the
  constructor \<^verbatim>\<open>LogisticRegression()\<close> and \<^verbatim>\<open>model.fit(X, Y)\<close>. Each returns
  or raises. The two fitting methods work on the object they are called on: they come
  with the object as the call leaves it, which is the object the global refers to from then
  on, whether the call returned or raised.
\<close>

record ('f, 'a) sklearn =
  load_breast_cancer :: "pyexn + 'a bunch"
  DataFrame :: "'a \<Rightarrow> string list \<Rightarrow> pyexn + 'a"
  frame_setitem :: "'a \<Rightarrow> string \<Rightarrow> 'a \<Rightarrow> pyexn + 'a"
  frame_drop :: "'a \<Rightarrow> string \<Rightarrow> pyexn + 'a"
  frame_getitem :: "'a \<Rightarrow> string \<Rightarrow> pyexn + 'a"
  train_test_split :: "'a \<Rightarrow> 'a \<Rightarrow> rat \<Rightarrow> int \<Rightarrow> pyexn + 'a \<times> 'a \<times> 'a \<times> 'a"
  StandardScaler :: "pyexn + 'a scaler_obj"
  scaler_fit_transform :: "'a scaler_obj \<Rightarrow> 'a \<Rightarrow> (pyexn + 'a) \<times> 'a scaler_obj"
  LogisticRegression :: "pyexn + ('f, 'a) model_obj"
  model_fit :: "('f, 'a) model_obj \<Rightarrow> 'a \<Rightarrow> 'a \<Rightarrow> pyexn option \<times> ('f, 'a) model_obj"

text \<open>
  The part of the outside world \<^verbatim>\<open>load_model\<close> writes: the files in the working
  directory that hold a dumped object, the paths that cannot be opened for writing, each
  with the exception the attempt raises (a directory of that name, a missing permission),
  and the lines printed.
\<close>

datatype ('f, 'a) pickled =
    Pickled_model "('f, 'a) model_obj"
  | Pickled_scaler "'a scaler_obj"

record ('f, 'a) world =
  files :: "string \<rightharpoonup> ('f, 'a) pickled"
  refused :: "string \<rightharpoonup> pyexn"
  stdout :: "string list"

text \<open>
  \<^verbatim>\<open>joblib.dump(obj, name)\<close>: the exception raised, if any, and the world afterwards.
  A dump that cannot open its file leaves the files as they were.
\<close>

definition joblib_dump ::
  "('f, 'a) pickled \<Rightarrow> string \<Rightarrow> ('f, 'a) world \<Rightarrow> pyexn option \<times> ('f, 'a) world" where
  "joblib_dump obj name w =
     (case refused w name of
        Some e \<Rightarrow> (Some e, w)
      | None \<Rightarrow> (None, w\<lparr>files := (files w)(name \<mapsto> obj)\<rparr>))"

definition print :: "string \<Rightarrow> ('f, 'a) world \<Rightarrow> ('f, 'a) world" where
  "print line w = w\<lparr>stdout := stdout w @ [line]\<rparr>"

text \<open>
  \<^verbatim>\<open>load_model\<close> has no handler: an exception of a library call or of a dump leaves
  it. The result is that exception, if any, with the globals as assigned up to then
  (\<^verbatim>\<open>feature_names\<close> at line 26, \<^verbatim>\<open>scaler\<close> at line 40, \<^verbatim>\<open>model\<close> at line
  45) and the world as written up to then.
\<close>

definition load_model ::
  "('f, 'a) sklearn \<Rightarrow> ('f, 'a) world \<Rightarrow> ('f, 'a) globals
     \<Rightarrow> pyexn option \<times> ('f, 'a) globals \<times> ('f, 'a) world" where
  "load_model L w g =
     (case load_breast_cancer L of
        Inl e \<Rightarrow> (Some e, g, w)
      | Inr breast_cancer_dataset \<Rightarrow>
     (let g1 = g\<lparr>feature_names := Some (bunch_feature_names breast_cancer_dataset)\<rparr> in
     (case DataFrame L (bunch_data breast_cancer_dataset)
                       (bunch_feature_names breast_cancer_dataset) of
        Inl e \<Rightarrow> (Some e, g1, w)
      | Inr data_frame0 \<Rightarrow>
     (case frame_setitem L data_frame0 ''label'' (bunch_target breast_cancer_dataset) of
        Inl e \<Rightarrow> (Some e, g1, w)
      | Inr data_frame \<Rightarrow>
     (case frame_drop L data_frame ''label'' of
        Inl e \<Rightarrow> (Some e, g1, w)
      | Inr X \<Rightarrow>
     (case frame_getitem L data_frame ''label'' of
        Inl e \<Rightarrow> (Some e, g1, w)
      | Inr Y \<Rightarrow>
     (case train_test_split L X Y (2 / 10) 2 of
        Inl e \<Rightarrow> (Some e, g1, w)
      | Inr (X_train, X_test, Y_train, Y_test) \<Rightarrow>
     (case StandardScaler L of
        Inl e \<Rightarrow> (Some e, g1, w)
      | Inr new_scaler \<Rightarrow>
     (case scaler_fit_transform L new_scaler X_train of
        (Inl e, left_scaler) \<Rightarrow> (Some e, g1\<lparr>scaler := Some left_scaler\<rparr>, w)
      | (Inr X_train_scaled, fitted_scaler) \<Rightarrow>
     (let g2 = g1\<lparr>scaler := Some fitted_scaler\<rparr> in
     (case scaler_transform fitted_scaler X_test of
        Inl e \<Rightarrow> (Some e, g2, w)
      | Inr X_test_scaled \<Rightarrow>
     (case LogisticRegression L of
        Inl e \<Rightarrow> (Some e, g2, w)
      | Inr new_model \<Rightarrow>
     (case model_fit L new_model X_train_scaled Y_train of
        (Some e, left_model) \<Rightarrow> (Some e, g2\<lparr>model := Some left_model\<rparr>, w)
      | (None, fitted_model) \<Rightarrow>
     (let g3 = g2\<lparr>model := Some fitted_model\<rparr> in
     (case joblib_dump (Pickled_model fitted_model) ''model.pkl'' w of
        (Some e, w1) \<Rightarrow> (Some e, g3, w1)
      | (None, w1) \<Rightarrow>
     (case joblib_dump (Pickled_scaler fitted_scaler) ''scaler.pkl'' w1 of
        (Some e, w2) \<Rightarrow> (Some e, g3, w2)
      | (None, w2) \<Rightarrow>
          (None, g3, print ''Model trained and saved successfully!'' w2)))))))))))))))))"

text \<open>The module's top level: the globals start as \<^verbatim>\<open>None\<close> (lines 16--18) and
  \<^verbatim>\<open>load_model()\<close> runs once, at import (lines 125--127).\<close>

definition initial_globals :: "('f, 'a) globals" where
  "initial_globals = \<lparr>model = None, scaler = None, feature_names = None\<rparr>"

definition startup ::
  "('f, 'a) sklearn \<Rightarrow> ('f, 'a) world
     \<Rightarrow> pyexn option \<times> ('f, 'a) globals \<times> ('f, 'a) world" where
  "startup L w =
     (case load_model L (print ''Loading breast cancer detection model...'' w) initial_globals of
        (Some e, g, w') \<Rightarrow> (Some e, g, w')
      | (None, g, w') \<Rightarrow> (None, g, print ''Model loaded successfully!'' w'))"

section \<open>A small instance of the library\<close>

text \<open>
  The definitions above take the library as a parameter. For evaluating them on concrete
  requests this section gives one instance, over rational numbers as floats and lists of
  rows as arrays, with the refusals the real library has: a value that is no number, or an
  integer beyond the range of a 64-bit float (magnitude \<open>2 ^ 1024\<close> or more), cannot
  be converted to a float array. The scaler subtracts 10 and divides by 2; the classifier
  answers class 1 for a row whose scaled values sum to less than 0.
\<close>

fun as_float64 :: "rat json \<Rightarrow> pyexn + rat" where
  "as_float64 (JInt n) =
     (if \<bar>n\<bar> < 2 ^ 1024 then Inr (of_int n)
      else Inl (PyExn ''OverflowError'' ''int too large to convert to float''))"
| "as_float64 (JFloat x) = Inr x"
| "as_float64 (JBool b) = Inr (if b then 1 else 0)"
| "as_float64 v = Inl (PyExn ''ValueError'' ''could not convert to float'')"

fun as_float64_row :: "rat json list \<Rightarrow> pyexn + rat list" where
  "as_float64_row [] = Inr []"
| "as_float64_row (v # vs) =
     (case as_float64 v of
        Inl e \<Rightarrow> Inl e
      | Inr x \<Rightarrow> (case as_float64_row vs of Inl e \<Rightarrow> Inl e | Inr xs \<Rightarrow> Inr (x # xs)))"

fun cells :: "rat json \<Rightarrow> rat json list" where
  "cells (JArr vs) = vs"
| "cells (JObj kvs) = map snd kvs"
| "cells v = [v]"

fun scale_rows :: "rat \<Rightarrow> rat \<Rightarrow> rat json list \<Rightarrow> pyexn + rat json list" where
  "scale_rows mean sd [] = Inr []"
| "scale_rows mean sd (r # rs) =
     (case as_float64_row (cells r) of
        Inl e \<Rightarrow> Inl e
      | Inr xs \<Rightarrow>
          (case scale_rows mean sd rs of
             Inl e \<Rightarrow> Inl e
           | Inr rs' \<Rightarrow> Inr (JArr (map (\<lambda>x. JFloat ((x - mean) / sd)) xs) # rs')))"

fun row_sums :: "rat json list \<Rightarrow> pyexn + rat list" where
  "row_sums [] = Inr []"
| "row_sums (r # rs) =
     (case as_float64_row (cells r) of
        Inl e \<Rightarrow> Inl e
      | Inr xs \<Rightarrow> (case row_sums rs of Inl e \<Rightarrow> Inl e | Inr ss \<Rightarrow> Inr (sum_list xs # ss)))"

definition example_scaler :: "rat json list scaler_obj" where
  "example_scaler = \<lparr>scaler_transform = scale_rows 10 2\<rparr>"

definition example_model :: "(rat, rat json list) model_obj" where
  "example_model =
     \<lparr>model_predict = (\<lambda>rows.
        case row_sums rows of
          Inl e \<Rightarrow> Inl e
        | Inr ss \<Rightarrow> Inr (map (\<lambda>s. if s < 0 then 1 else 0) ss)),
      model_predict_proba = (\<lambda>rows.
        case row_sums rows of
          Inl e \<Rightarrow> Inl e
        | Inr ss \<Rightarrow>
            Inr (map (\<lambda>s. if s < 0 then [12345 / 100000, 87655 / 100000]
                           else [3 / 4, 1 / 4]) ss))\<rparr>"

definition example_numerics :: "(rat, rat json list) numerics" where
  "example_numerics =
     \<lparr>np_array_reshape = (\<lambda>features. Inr [features]),
      times100 = (\<lambda>x. x * 100),
      round2 = (\<lambda>x. of_int \<lfloor>x * 100 + 1 / 2\<rfloor> / 100)\<rparr>"

definition example_globals :: "(rat, rat json list) globals" where
  "example_globals =
     \<lparr>model = Some example_model,
      scaler = Some example_scaler,
      feature_names = Some [''mean radius'', ''mean texture'']\<rparr>"

definition example_features :: "rat json list" where
  "example_features =
     map JInt [1, 2, 3, 4, 5, 6, 7, 8, 9, 10,
               1, 2, 3, 4, 5, 6, 7, 8, 9, 10,
               1, 2, 3, 4, 5, 6, 7, 8, 9, 10]"

definition example_scaled :: "rat json list" where
  "example_scaled =
     map JFloat [- 9 / 2, - 4, - 7 / 2, - 3, - 5 / 2, - 2, - 3 / 2, - 1, - 1 / 2, 0,
                 - 9 / 2, - 4, - 7 / 2, - 3, - 5 / 2, - 2, - 3 / 2, - 1, - 1 / 2, 0,
                 - 9 / 2, - 4, - 7 / 2, - 3, - 5 / 2, - 2, - 3 / 2, - 1, - 1 / 2, 0]"

definition huge_features :: "rat json list" where
  "huge_features = JInt (10 ^ 400) # replicate 29 (JInt 1)"

definition text_features :: "rat json list" where
  "text_features = JStr ''abc'' # replicate 29 (JInt 1)"


text \<open>
  The example scaler and classifier as objects with methods that leave them alone, and a
  scaler that counts its calls and refuses every call but the first.
\<close>

definition example_methods ::
  "(rat, rat json list, rat json list scaler_obj, (rat, rat json list) model_obj) methods" where
  "example_methods =
     \<lparr>transform_method = (\<lambda>sc x. (scaler_transform sc x, sc)),
      predict_method = (\<lambda>m x. (model_predict m x, m)),
      predict_proba_method = (\<lambda>m x. (model_predict_proba m x, m))\<rparr>"

definition example_heap ::
  "(rat json list scaler_obj, (rat, rat json list) model_obj) heap" where
  "example_heap =
     \<lparr>the_model = Some example_model,
      the_scaler = Some example_scaler,
      the_feature_names = Some [''mean radius'', ''mean texture'']\<rparr>"

definition counting_methods ::
  "(rat, rat json list, nat, (rat, rat json list) model_obj) methods" where
  "counting_methods =
     \<lparr>transform_method = (\<lambda>n x.
        (if n = 0 then scaler_transform example_scaler x
         else Inl (PyExn ''RuntimeError'' ''used up''), Suc n)),
      predict_method = (\<lambda>m x. (model_predict m x, m)),
      predict_proba_method = (\<lambda>m x. (model_predict_proba m x, m))\<rparr>"

definition counting_heap :: "(nat, (rat, rat json list) model_obj) heap" where
  "counting_heap =
     \<lparr>the_model = Some example_model,
      the_scaler = Some 0,
      the_feature_names = Some [''mean radius'', ''mean texture'']\<rparr>"

text \<open>A data set of five samples with two features, and a training library around it.\<close>

definition example_bunch :: "rat json list bunch" where
  "example_bunch =
     \<lparr>bunch_data = [JArr [JInt 12, JInt 14], JArr [JInt 6, JInt 8], JArr [JInt 7, JInt 9],
                    JArr [JInt 13, JInt 11], JArr [JInt 8, JInt 8]],
      bunch_target = [JInt 0, JInt 1, JInt 1, JInt 0, JInt 1],
      bunch_feature_names = [''mean radius'', ''mean texture'']\<rparr>"

fun set_column :: "string \<Rightarrow> rat json \<Rightarrow> rat json \<Rightarrow> rat json" where
  "set_column k (JObj kvs) v = JObj (filter (\<lambda>kv. fst kv \<noteq> k) kvs @ [(k, v)])"
| "set_column k r v = r"

fun drop_column :: "string \<Rightarrow> rat json \<Rightarrow> rat json" where
  "drop_column k (JObj kvs) = JObj (filter (\<lambda>kv. fst kv \<noteq> k) kvs)"
| "drop_column k r = r"

fun get_column :: "string \<Rightarrow> rat json \<Rightarrow> rat json" where
  "get_column k (JObj kvs) = (case map_of kvs k of Some v \<Rightarrow> v | None \<Rightarrow> JNull)"
| "get_column k r = JNull"

text \<open>The objects the two constructors give: not fitted, their methods refuse.\<close>

definition not_fitted :: "string \<Rightarrow> pyexn" where
  "not_fitted name =
     PyExn ''NotFittedError'' (''This '' @ name @ '' instance is not fitted yet.'')"

definition new_scaler :: "rat json list scaler_obj" where
  "new_scaler = \<lparr>scaler_transform = (\<lambda>X. Inl (not_fitted ''StandardScaler''))\<rparr>"

definition new_model :: "(rat, rat json list) model_obj" where
  "new_model =
     \<lparr>model_predict = (\<lambda>X. Inl (not_fitted ''LogisticRegression'')),
      model_predict_proba = (\<lambda>X. Inl (not_fitted ''LogisticRegression''))\<rparr>"

definition example_sklearn :: "(rat, rat json list) sklearn" where
  "example_sklearn =
     \<lparr>load_breast_cancer = Inr example_bunch,
      DataFrame = (\<lambda>data names. Inr (map (\<lambda>r. JObj (zip names (cells r))) data)),
      frame_setitem = (\<lambda>frame k column. Inr (map2 (set_column k) frame column)),
      frame_drop = (\<lambda>frame k. Inr (map (drop_column k) frame)),
      frame_getitem = (\<lambda>frame k. Inr (map (get_column k) frame)),
      train_test_split = (\<lambda>X Y test_size random_state.
        let n_test = nat \<lceil>test_size * of_nat (length X)\<rceil>
        in Inr (drop n_test X, take n_test X, drop n_test Y, take n_test Y)),
      StandardScaler = Inr new_scaler,
      scaler_fit_transform = (\<lambda>sc X.
        case scaler_transform example_scaler X of
          Inl e \<Rightarrow> (Inl e, sc)
        | Inr X_scaled \<Rightarrow> (Inr X_scaled, example_scaler)),
      LogisticRegression = Inr new_model,
      model_fit = (\<lambda>m X Y. (None, example_model))\<rparr>"

definition empty_world :: "(rat, rat json list) world" where
  "empty_world = \<lparr>files = Map.empty, refused = Map.empty, stdout = []\<rparr>"

text \<open>A world in which \<^verbatim>\<open>model.pkl\<close> is a directory.\<close>

definition blocked_world :: "(rat, rat json list) world" where
  "blocked_world =
     \<lparr>files = Map.empty,
      refused = [''model.pkl'' \<mapsto> PyExn ''IsADirectoryError'' ''[Errno 21] Is a directory''],
      stdout = []\<rparr>"

text \<open>What \<^verbatim>\<open>load_model\<close> leaves with this library, started from nothing.\<close>

definition trained_globals :: "(rat, rat json list) globals" where
  "trained_globals =
     \<lparr>model = Some example_model,
      scaler = Some example_scaler,
      feature_names = Some [''mean radius'', ''mean texture'']\<rparr>"

definition trained_world :: "(rat, rat json list) world" where
  "trained_world =
     \<lparr>files = [''model.pkl'' \<mapsto> Pickled_model example_model,
               ''scaler.pkl'' \<mapsto> Pickled_scaler example_scaler],
      refused = Map.empty,
      stdout = [''Model trained and saved successfully!'']\<rparr>"

section \<open>Properties of \<^verbatim>\<open>predict\<close>\<close>

subsection \<open>The two checks\<close>

lemma features_key_present:
  assumes "map_of kvs k = Some v"
  shows "kvs \<noteq> [] \<and> k \<in> set (map fst kvs)"
proof -
  from assms have "(k, v) \<in> set kvs" by (rule map_of_SomeD)
  then show ?thesis by force
qed

lemma predict_try_valid:
  assumes "map_of kvs ''features'' = Some features" and "py_len features = Inr 30"
  shows "predict_try N g (Inr (JObj kvs)) = predict_infer N g features"
  using features_key_present [OF assms(1)] assms
  by (simp add: predict_try_def)

lemma predict_try_no_key:
  assumes "map_of kvs ''features'' = None"
  shows "predict_try N g (Inr (JObj kvs)) =
           (Inr (Json_response 400 (JObj [(''error'', JStr ''No features provided'')])), [])"
proof -
  from assms have "''features'' \<notin> set (map fst kvs)"
    by (simp add: map_of_eq_None_iff)
  then show ?thesis
    by (simp add: predict_try_def jsonify_status_def)
qed

lemma predict_try_wrong_length:
  assumes "map_of kvs ''features'' = Some features" and "py_len features = Inr n" and "n \<noteq> 30"
  shows "predict_try N g (Inr (JObj kvs)) =
           (Inr (Json_response 400
                  (JObj [(''error'', JStr (''Expected 30 features, got '' @ str_nat n))])), [])"
  using features_key_present [OF assms(1)] assms
  by (simp add: predict_try_def jsonify_status_def)

lemma predict_valid:
  assumes "map_of kvs ''features'' = Some (JArr xs)" and "length xs = 30"
  shows "predict N g (Inr (JObj kvs)) =
           (case predict_infer N g (JArr xs) of
              (Inl e, calls) \<Rightarrow> (Json_response 500 (JObj [(''error'', JStr (exn_message e))]), calls)
            | (Inr r, calls) \<Rightarrow> (r, calls))"
  using assms by (simp add: predict_def predict_try_valid jsonify_status_def split: prod.splits sum.splits)

subsection \<open>The example instance, evaluated\<close>

lemma example_request_shape:
  "map_of [(''features'', JArr example_features)] ''features'' = Some (JArr example_features)
   \<and> length example_features = 30 \<and> list_all is_number example_features"
  by (simp add: example_features_def is_number_def)

lemma example_array:
  "np_array_reshape example_numerics (JArr xs) = Inr [JArr xs]"
  by (simp add: example_numerics_def)

lemma example_loaded:
  "scaler example_globals = Some example_scaler \<and> model example_globals = Some example_model"
  by (simp add: example_globals_def)

lemma example_transform:
  "scaler_transform example_scaler [JArr example_features] = Inr [JArr example_scaled]"
  by (simp add: example_scaler_def example_features_def example_scaled_def)

lemma example_predict:
  "model_predict example_model [JArr example_scaled] = Inr [1]"
  by (simp add: example_model_def example_scaled_def)

lemma example_predict_proba:
  "model_predict_proba example_model [JArr example_scaled]
     = Inr [[12345 / 100000, 87655 / 100000]]"
  by (simp add: example_model_def example_scaled_def)

lemma huge_request_shape:
  "map_of [(''features'', JArr huge_features)] ''features'' = Some (JArr huge_features)
   \<and> length huge_features = 30 \<and> list_all is_number huge_features"
  by (simp add: huge_features_def is_number_def list_all_iff)

lemma huge_transform:
  "scaler_transform example_scaler [JArr huge_features]
     = Inl (PyExn ''OverflowError'' ''int too large to convert to float'')"
  by (simp add: example_scaler_def huge_features_def)

lemma text_request_shape:
  "map_of [(''features'', JArr text_features)] ''features'' = Some (JArr text_features)
   \<and> length text_features = 30 \<and> \<not> list_all is_number text_features"
  by (simp add: text_features_def is_number_def list_all_iff)

lemma text_transform:
  "scaler_transform example_scaler [JArr text_features]
     = Inl (PyExn ''ValueError'' ''could not convert to float'')"
  by (simp add: example_scaler_def text_features_def)

lemma predict_infer_transform_raises:
  assumes "np_array_reshape N features = Inr a"
    and "scaler g = Some sc" and "scaler_transform sc a = Inl e"
  shows "predict_infer N g features = (Inl e, [Call_transform a])"
  using assms by (simp add: predict_infer_def)

text \<open>
  C2, as the code has it. A request whose body is a JSON object without a
  \<^verbatim>\<open>features\<close> key, or with a \<^verbatim>\<open>features\<close> list whose length is not
  30, is answered with status 400 and an error message, and no method of the scaler or of
  the classifier is called. So is a request whose body decodes to \<^verbatim>\<open>None\<close>.
\<close>

theorem predict_rejects_wrong_shape:
  "(map_of kvs ''features'' = None \<longrightarrow>
      predict N g (Inr (JObj kvs)) =
        (Json_response 400 (JObj [(''error'', JStr ''No features provided'')]), []))
   \<and> (map_of kvs ''features'' = Some (JArr xs) \<and> length xs \<noteq> 30 \<longrightarrow>
      predict N g (Inr (JObj kvs)) =
        (Json_response 400
           (JObj [(''error'', JStr (''Expected 30 features, got '' @ str_nat (length xs)))]), []))
   \<and> predict N g (Inr JNull) =
        (Json_response 400 (JObj [(''error'', JStr ''No features provided'')]), [])"
proof (intro conjI impI)
  show "predict N g (Inr JNull) =
        (Json_response 400 (JObj [(''error'', JStr ''No features provided'')]), [])"
    by (simp add: predict_def predict_try_def jsonify_status_def)
next
  assume "map_of kvs ''features'' = None"
  then show "predict N g (Inr (JObj kvs)) =
        (Json_response 400 (JObj [(''error'', JStr ''No features provided'')]), [])"
    by (simp add: predict_def predict_try_no_key)
next
  assume a: "map_of kvs ''features'' = Some (JArr xs) \<and> length xs \<noteq> 30"
  then have "predict_try N g (Inr (JObj kvs)) =
           (Inr (Json_response 400
                  (JObj [(''error'', JStr (''Expected 30 features, got '' @ str_nat (length xs)))])), [])"
    by (intro predict_try_wrong_length [where features = "JArr xs"]) simp_all
  then show "predict N g (Inr (JObj kvs)) =
        (Json_response 400
           (JObj [(''error'', JStr (''Expected 30 features, got '' @ str_nat (length xs)))]), [])"
    by (simp add: predict_def)
qed

theorem predict_rejects_wrong_shape_witness:
  "predict example_numerics example_globals (Inr (JObj [(''model'', JStr ''x'')])) =
     (Json_response 400 (JObj [(''error'', JStr ''No features provided'')]), [])
   \<and> predict example_numerics example_globals (Inr (JObj [(''features'', JArr [JInt 1, JInt 2])])) =
     (Json_response 400 (JObj [(''error'', JStr ''Expected 30 features, got 2'')]), [])"
proof -
  have k: "map_of [(''model'', JStr ''x'' :: rat json)] ''features'' = None"
    by simp
  have l: "map_of [(''features'', JArr [JInt 1, JInt 2 :: rat json])] ''features''
             = Some (JArr [JInt 1, JInt 2])
           \<and> length [JInt 1, JInt 2 :: rat json] \<noteq> 30"
    by simp
  have s: "str_nat (length [JInt 1, JInt 2 :: rat json]) = ''2''"
    by (simp add: str_nat.simps)
  from k predict_rejects_wrong_shape
         [where kvs = "[(''model'', JStr ''x'')]" and N = example_numerics and g = example_globals]
  have "predict example_numerics example_globals (Inr (JObj [(''model'', JStr ''x'')])) =
     (Json_response 400 (JObj [(''error'', JStr ''No features provided'')]), [])"
    by blast
  moreover
  from l predict_rejects_wrong_shape
         [where kvs = "[(''features'', JArr [JInt 1, JInt 2])]" and xs = "[JInt 1, JInt 2]"
            and N = example_numerics and g = example_globals]
  have "predict example_numerics example_globals (Inr (JObj [(''features'', JArr [JInt 1, JInt 2])])) =
     (Json_response 400
        (JObj [(''error'',
                JStr (''Expected 30 features, got '' @ str_nat (length [JInt 1, JInt 2 :: rat json])))]),
      [])"
    by blast
  ultimately show ?thesis using s by simp
qed

text \<open>
  C2, as stated, fails: the body \<^verbatim>\<open>5\<close> is valid JSON and has no
  \<^verbatim>\<open>features\<close> key; it is true, so the membership test is made, and that
  raises on an integer. The handler answers 500, not 400.
\<close>

theorem predict_scalar_body_gets_500:
  "py_not (JInt 5 :: rat json) = False
   \<and> isl (py_contains ''features'' (JInt 5 :: rat json))
   \<and> status_of (fst (predict example_numerics example_globals (Inr (JInt 5)))) = 500
   \<and> snd (predict example_numerics example_globals (Inr (JInt 5))) = []"
  by (simp add: predict_def predict_try_def jsonify_status_def)

subsection \<open>A request the library accepts\<close>

lemma predict_infer_success:
  assumes "np_array_reshape N features = Inr a"
    and "scaler g = Some sc" and "scaler_transform sc a = Inr s"
    and "model g = Some m" and "model_predict m s = Inr (p # ps)"
    and "model_predict_proba m s = Inr ((pm # pb # row) # rows)"
  shows "predict_infer N g features =
           (Inr (Json_response 200 (JObj
              [(''prediction'', JInt p),
               (''label'', JStr (if p = 1 then ''Benign'' else ''Malignant'')),
               (''confidence'', JFloat (round2 N (times100 N (fold (\<lambda>y m. if m < y then y else m) (pb # row) pm)))),
               (''probabilities'', JObj
                  [(''malignant'', JFloat (round2 N (times100 N pm))),
                   (''benign'', JFloat (round2 N (times100 N pb)))])])),
            [Call_transform a, Call_predict s, Call_predict_proba s])"
  using assms
  by (simp add: predict_infer_def predict_result_def index_array_def jsonify_def)

text \<open>
  C1, as the code has it. A request with a \<^verbatim>\<open>features\<close> list of 30 numbers is
  answered with status 200 and the four entries, provided the conversion to an array, the
  scaler and the classifier return: an array, a scaled array, at least one class label and
  a first row of at least two probabilities.
\<close>

theorem predict_ok_when_library_returns:
  assumes "map_of kvs ''features'' = Some (JArr xs)" and "length xs = 30"
    and "list_all is_number xs"
    and "np_array_reshape N (JArr xs) = Inr a"
    and "scaler g = Some sc" and "scaler_transform sc a = Inr s"
    and "model g = Some m" and "model_predict m s = Inr (p # ps)"
    and "model_predict_proba m s = Inr ((pm # pb # row) # rows)"
  shows "\<exists>l c vm vb.
           fst (predict N g (Inr (JObj kvs))) =
             Json_response 200 (JObj
               [(''prediction'', JInt p),
                (''label'', JStr l),
                (''confidence'', JFloat c),
                (''probabilities'', JObj [(''malignant'', JFloat vm), (''benign'', JFloat vb)])])
           \<and> (l = ''Malignant'' \<or> l = ''Benign'')"
proof -
  have "predict N g (Inr (JObj kvs)) =
          (case predict_infer N g (JArr xs) of
              (Inl e, calls) \<Rightarrow> (Json_response 500 (JObj [(''error'', JStr (exn_message e))]), calls)
            | (Inr r, calls) \<Rightarrow> (r, calls))"
    using assms(1,2) by (rule predict_valid)
  then show ?thesis
    by (simp add: predict_infer_success [OF assms(4-9)])
qed

theorem predict_ok_when_library_returns_witness:
  "(map_of [(''features'', JArr example_features)] ''features'' = Some (JArr example_features)
    \<and> length example_features = 30 \<and> list_all is_number example_features)
   \<and> scaler_transform example_scaler [JArr example_features] = Inr [JArr example_scaled]
   \<and> model_predict example_model [JArr example_scaled] = Inr [1]
   \<and> model_predict_proba example_model [JArr example_scaled]
        = Inr [[12345 / 100000, 87655 / 100000]]
   \<and> (\<exists>l c vm vb.
         fst (predict example_numerics example_globals
                (Inr (JObj [(''features'', JArr example_features)]))) =
           Json_response 200 (JObj
             [(''prediction'', JInt 1),
              (''label'', JStr l),
              (''confidence'', JFloat c),
              (''probabilities'', JObj [(''malignant'', JFloat vm), (''benign'', JFloat vb)])])
         \<and> (l = ''Malignant'' \<or> l = ''Benign''))"
proof -
  note shape = example_request_shape
  have "\<exists>l c vm vb.
         fst (predict example_numerics example_globals
                (Inr (JObj [(''features'', JArr example_features)]))) =
           Json_response 200 (JObj
             [(''prediction'', JInt 1),
              (''label'', JStr l),
              (''confidence'', JFloat c),
              (''probabilities'', JObj [(''malignant'', JFloat vm), (''benign'', JFloat vb)])])
         \<and> (l = ''Malignant'' \<or> l = ''Benign'')"
    using shape example_array example_loaded example_transform example_predict
      example_predict_proba
    by (intro predict_ok_when_library_returns
                [where xs = example_features and a = "[JArr example_features]"
                   and sc = example_scaler and s = "[JArr example_scaled]"
                   and m = example_model and p = 1 and ps = "[]"
                   and pm = "12345 / 100000" and pb = "87655 / 100000"
                   and row = "[]" and rows = "[]"]) simp_all
  with shape example_transform example_predict example_predict_proba show ?thesis
    by blast
qed

text \<open>
  C1, as stated, fails: the 30 integers of \<open>huge_features\<close> are numbers, the first one
  beyond the range of a float, and the answer is the handler's 500.
\<close>

theorem predict_numeric_request_refused:
  "length huge_features = 30 \<and> list_all is_number huge_features
   \<and> fst (predict example_numerics example_globals
            (Inr (JObj [(''features'', JArr huge_features)])))
       = Json_response 500 (JObj [(''error'', JStr ''int too large to convert to float'')])"
proof -
  have "predict_infer example_numerics example_globals (JArr huge_features)
          = (Inl (PyExn ''OverflowError'' ''int too large to convert to float''),
             [Call_transform [JArr huge_features]])"
    using example_array example_loaded huge_transform
    by (intro predict_infer_transform_raises) simp_all
  then show ?thesis
    using huge_request_shape
    by (simp add: predict_valid [where xs = huge_features])
qed

subsection \<open>What the validation looks at\<close>

lemma predict_infer_calls_transform:
  assumes "np_array_reshape N features = Inr a" and "scaler g = Some sc"
  shows "\<exists>calls. snd (predict_infer N g features) = Call_transform a # calls"
  using assms
  by (simp add: predict_infer_def split: sum.splits option.splits)

lemma predict_result_status:
  "predict_result N p row = Inr r \<Longrightarrow> status_of r = 200"
  by (auto simp: predict_result_def jsonify_def Let_def split: sum.splits)

lemma predict_infer_status:
  "predict_infer N g features = (Inr r, calls) \<Longrightarrow> status_of r = 200"
  by (auto simp: predict_infer_def predict_result_status split: sum.splits option.splits)

text \<open>
  C3, as the code has it. The validation is the presence and the length check alone: a
  \<^verbatim>\<open>features\<close> list of length 30 is never answered with the 400 of the validation,
  whatever its elements are; the answer is a 200 or the handler's 500. The list is handed
  to the array conversion: if that raises, the answer is a 500 and the scaler is not
  called; if it returns an array and the scaler is loaded, the scaler's
  \<^verbatim>\<open>transform\<close> is called on that array.
\<close>

theorem predict_validates_length_only:
  assumes "map_of kvs ''features'' = Some (JArr xs)" and "length xs = 30"
  shows "status_of (fst (predict N g (Inr (JObj kvs)))) \<noteq> 400
         \<and> (status_of (fst (predict N g (Inr (JObj kvs)))) = 200
            \<or> status_of (fst (predict N g (Inr (JObj kvs)))) = 500)
         \<and> (np_array_reshape N (JArr xs) = Inl e \<longrightarrow>
              predict N g (Inr (JObj kvs))
                = (Json_response 500 (JObj [(''error'', JStr (exn_message e))]), []))
         \<and> (np_array_reshape N (JArr xs) = Inr a \<and> scaler g = Some sc \<longrightarrow>
              (\<exists>calls. snd (predict N g (Inr (JObj kvs))) = Call_transform a # calls))"
proof -
  obtain res calls where pi: "predict_infer N g (JArr xs) = (res, calls)"
    by (cases "predict_infer N g (JArr xs)")
  have p: "predict N g (Inr (JObj kvs)) =
          (case predict_infer N g (JArr xs) of
              (Inl e, calls) \<Rightarrow> (Json_response 500 (JObj [(''error'', JStr (exn_message e))]), calls)
            | (Inr r, calls) \<Rightarrow> (r, calls))"
    using assms by (rule predict_valid)
  have st: "status_of (fst (predict N g (Inr (JObj kvs)))) = 200
            \<or> status_of (fst (predict N g (Inr (JObj kvs)))) = 500"
  proof (cases res)
    case (Inl e')
    with p pi show ?thesis by simp
  next
    case (Inr r)
    with pi have "status_of r = 200" by (simp add: predict_infer_status)
    with p pi Inr show ?thesis by simp
  qed
  have raises: "np_array_reshape N (JArr xs) = Inl e \<longrightarrow>
              predict N g (Inr (JObj kvs))
                = (Json_response 500 (JObj [(''error'', JStr (exn_message e))]), [])"
    using p by (simp add: predict_infer_def)
  have called: "np_array_reshape N (JArr xs) = Inr a \<and> scaler g = Some sc \<longrightarrow>
              (\<exists>calls. snd (predict N g (Inr (JObj kvs))) = Call_transform a # calls)"
  proof
    assume "np_array_reshape N (JArr xs) = Inr a \<and> scaler g = Some sc"
    then have "\<exists>calls. snd (predict_infer N g (JArr xs)) = Call_transform a # calls"
      by (intro predict_infer_calls_transform [where sc = sc]) simp_all
    with pi obtain rest where "calls = Call_transform a # rest" by auto
    with p pi show "\<exists>calls. snd (predict N g (Inr (JObj kvs))) = Call_transform a # calls"
      by (cases res) simp_all
  qed
  from st raises called show ?thesis by auto
qed

theorem predict_validates_length_only_witness:
  "(map_of [(''features'', JArr text_features)] ''features'' = Some (JArr text_features)
    \<and> length text_features = 30 \<and> \<not> list_all is_number text_features)
   \<and> status_of (fst (predict example_numerics example_globals
                       (Inr (JObj [(''features'', JArr text_features)])))) \<noteq> 400
   \<and> (\<exists>calls. snd (predict example_numerics example_globals
                       (Inr (JObj [(''features'', JArr text_features)])))
               = Call_transform [JArr text_features] # calls)"
  using text_request_shape example_array [of text_features] example_loaded
    predict_validates_length_only
      [where kvs = "[(''features'', JArr text_features)]" and xs = text_features
         and N = example_numerics and g = example_globals
         and a = "[JArr text_features]" and sc = example_scaler]
  by simp

text \<open>
  C3, as stated, fails: the list \<open>text_features\<close>, a string followed by 29 integers, passes the
  validation and is handed to the scaler, whose refusal the handler turns into a 500.
\<close>

theorem predict_text_request_reaches_scaler:
  "length text_features = 30 \<and> \<not> list_all is_number text_features
   \<and> predict example_numerics example_globals
        (Inr (JObj [(''features'', JArr text_features)]))
       = (Json_response 500 (JObj [(''error'', JStr ''could not convert to float'')]),
          [Call_transform [JArr text_features]])"
proof -
  have "predict_infer example_numerics example_globals (JArr text_features)
          = (Inl (PyExn ''ValueError'' ''could not convert to float''),
             [Call_transform [JArr text_features]])"
    using example_array example_loaded text_transform
    by (intro predict_infer_transform_raises) simp_all
  then show ?thesis
    using text_request_shape
    by (simp add: predict_valid [where xs = text_features])
qed

subsection \<open>Where a prediction comes from\<close>

lemma index_array_first:
  "index_array xs 0 = Inr x \<longleftrightarrow> (\<exists>rest. xs = x # rest)"
  by (cases xs) (auto simp: index_array_def)

lemma predict_result_Inr:
  assumes "predict_result N p row = Inr r"
  shows "\<exists>pm pb rest. row = pm # pb # rest \<and>
           r = Json_response 200 (JObj
                 [(''prediction'', JInt p),
                  (''label'', JStr (if p = 1 then ''Benign'' else ''Malignant'')),
                  (''confidence'', JFloat (round2 N (times100 N (fold (\<lambda>y m. if m < y then y else m) (pb # rest) pm)))),
                  (''probabilities'', JObj
                     [(''malignant'', JFloat (round2 N (times100 N pm))),
                      (''benign'', JFloat (round2 N (times100 N pb)))])])"
proof (cases row)
  case Nil
  with assms show ?thesis by (simp add: predict_result_def)
next
  case (Cons pm row')
  show ?thesis
  proof (cases row')
    case Nil
    with Cons assms show ?thesis by (simp add: predict_result_def index_array_def)
  next
    case (Cons pb rest)
    with \<open>row = pm # row'\<close> assms show ?thesis
      by (auto simp: predict_result_def index_array_def jsonify_def)
  qed
qed

lemma predict_infer_Inr:
  assumes "predict_infer N g features = (Inr r, calls)"
  shows "\<exists>a sc s m p ps row rows.
           np_array_reshape N features = Inr a
           \<and> scaler g = Some sc \<and> scaler_transform sc a = Inr s
           \<and> model g = Some m \<and> model_predict m s = Inr (p # ps)
           \<and> model_predict_proba m s = Inr (row # rows)
           \<and> predict_result N p row = Inr r
           \<and> calls = [Call_transform a, Call_predict s, Call_predict_proba s]"
  using assms
  by (auto simp: predict_infer_def index_array_first split: sum.splits option.splits)

lemma predict_try_200:
  assumes "predict_try N g req = (Inr r, calls)" and "status_of r = 200"
  shows "\<exists>data features.
           req = Inr data \<and> py_getitem data ''features'' = Inr features
           \<and> py_len features = Inr 30 \<and> predict_infer N g features = (Inr r, calls)"
  using assms
  by (auto simp: predict_try_def jsonify_status_def
           split: sum.splits if_splits bool.splits)

lemma predict_200:
  assumes "status_of (fst (predict N g req)) = 200"
  shows "\<exists>r calls. predict N g req = (r, calls) \<and> predict_try N g req = (Inr r, calls)
           \<and> status_of r = 200"
  using assms
  by (auto simp: predict_def jsonify_status_def split: prod.splits sum.splits)

text \<open>
  C4. When \<^verbatim>\<open>predict\<close> answers with a prediction (status 200), the class label and the
  probabilities in the answer are what the classifier's \<^verbatim>\<open>predict\<close> and
  \<^verbatim>\<open>predict_proba\<close> returned for the output of the scaler's \<^verbatim>\<open>transform\<close> on
  the array of the submitted features, and these three calls are the only ones made: the
  classifier is never called on the unscaled array.
\<close>

theorem predict_uses_scaled_features:
  assumes "status_of (fst (predict N g req)) = 200"
  shows "\<exists>data features a sc s m p ps pm pb rest rows.
           req = Inr data \<and> py_getitem data ''features'' = Inr features
           \<and> np_array_reshape N features = Inr a
           \<and> scaler g = Some sc \<and> scaler_transform sc a = Inr s
           \<and> model g = Some m \<and> model_predict m s = Inr (p # ps)
           \<and> model_predict_proba m s = Inr ((pm # pb # rest) # rows)
           \<and> snd (predict N g req) = [Call_transform a, Call_predict s, Call_predict_proba s]
           \<and> field ''prediction'' (fst (predict N g req)) = Some (JInt p)
           \<and> field ''label'' (fst (predict N g req))
               = Some (JStr (if p = 1 then ''Benign'' else ''Malignant''))
           \<and> field ''probabilities'' (fst (predict N g req))
               = Some (JObj [(''malignant'', JFloat (round2 N (times100 N pm))),
                             (''benign'', JFloat (round2 N (times100 N pb)))])"
proof -
  from predict_200 [OF assms] obtain r calls where
    p: "predict N g req = (r, calls)" and t: "predict_try N g req = (Inr r, calls)"
    and st: "status_of r = 200" by blast
  from predict_try_200 [OF t st] obtain data features where
    req: "req = Inr data" "py_getitem data ''features'' = Inr features"
    and i: "predict_infer N g features = (Inr r, calls)" by blast
  from predict_infer_Inr [OF i] obtain a sc s m p ps row rows where
    lib: "np_array_reshape N features = Inr a" "scaler g = Some sc"
      "scaler_transform sc a = Inr s" "model g = Some m" "model_predict m s = Inr (p # ps)"
      "model_predict_proba m s = Inr (row # rows)"
    and res: "predict_result N p row = Inr r"
    and calls: "calls = [Call_transform a, Call_predict s, Call_predict_proba s]" by blast
  from predict_result_Inr [OF res] obtain pm pb rest where
    row: "row = pm # pb # rest"
    and r: "r = Json_response 200 (JObj
                 [(''prediction'', JInt p),
                  (''label'', JStr (if p = 1 then ''Benign'' else ''Malignant'')),
                  (''confidence'', JFloat (round2 N (times100 N (fold (\<lambda>y m. if m < y then y else m) (pb # rest) pm)))),
                  (''probabilities'', JObj
                     [(''malignant'', JFloat (round2 N (times100 N pm))),
                      (''benign'', JFloat (round2 N (times100 N pb)))])])" by blast
  have "snd (predict N g req) = [Call_transform a, Call_predict s, Call_predict_proba s]"
    using p calls by simp
  moreover have "field ''prediction'' (fst (predict N g req)) = Some (JInt p)"
    using p r by simp
  moreover have "field ''label'' (fst (predict N g req))
               = Some (JStr (if p = 1 then ''Benign'' else ''Malignant''))"
    using p r by simp
  moreover have "field ''probabilities'' (fst (predict N g req))
               = Some (JObj [(''malignant'', JFloat (round2 N (times100 N pm))),
                             (''benign'', JFloat (round2 N (times100 N pb)))])"
    using p r by simp
  ultimately show ?thesis
    using req lib row by blast
qed

lemma example_predict_answer:
  "predict example_numerics example_globals (Inr (JObj [(''features'', JArr example_features)]))
     = (Json_response 200 (JObj
          [(''prediction'', JInt 1),
           (''label'', JStr ''Benign''),
           (''confidence'', JFloat (8766 / 100)),
           (''probabilities'', JObj
              [(''malignant'', JFloat (1235 / 100)), (''benign'', JFloat (8766 / 100))])]),
        [Call_transform [JArr example_features], Call_predict [JArr example_scaled],
         Call_predict_proba [JArr example_scaled]])"
proof -
  have "predict_infer example_numerics example_globals (JArr example_features)
     = (Inr (Json_response 200 (JObj
          [(''prediction'', JInt 1),
           (''label'', JStr ''Benign''),
           (''confidence'', JFloat (8766 / 100)),
           (''probabilities'', JObj
              [(''malignant'', JFloat (1235 / 100)), (''benign'', JFloat (8766 / 100))])])),
        [Call_transform [JArr example_features], Call_predict [JArr example_scaled],
         Call_predict_proba [JArr example_scaled]])"
    using example_array [of example_features] example_loaded example_transform example_predict
      example_predict_proba
    by (simp add: predict_infer_success
          [where a = "[JArr example_features]" and sc = example_scaler
             and s = "[JArr example_scaled]" and m = example_model and p = 1 and ps = "[]"
             and pm = "12345 / 100000" and pb = "87655 / 100000" and row = "[]" and rows = "[]"]
          example_numerics_def)
  then show ?thesis
    using example_request_shape
    by (simp add: predict_valid [where xs = example_features])
qed

theorem predict_uses_scaled_features_witness:
  "status_of (fst (predict example_numerics example_globals
                     (Inr (JObj [(''features'', JArr example_features)])))) = 200
   \<and> (\<exists>data features a sc s m p ps pm pb rest rows.
           (Inr (JObj [(''features'', JArr example_features)]) :: pyexn + rat json) = Inr data
           \<and> py_getitem data ''features'' = Inr features
           \<and> np_array_reshape example_numerics features = Inr a
           \<and> scaler example_globals = Some sc \<and> scaler_transform sc a = Inr s
           \<and> model example_globals = Some m \<and> model_predict m s = Inr (p # ps)
           \<and> model_predict_proba m s = Inr ((pm # pb # rest) # rows)
           \<and> snd (predict example_numerics example_globals
                    (Inr (JObj [(''features'', JArr example_features)])))
               = [Call_transform a, Call_predict s, Call_predict_proba s]
           \<and> field ''prediction'' (fst (predict example_numerics example_globals
                    (Inr (JObj [(''features'', JArr example_features)])))) = Some (JInt p)
           \<and> field ''label'' (fst (predict example_numerics example_globals
                    (Inr (JObj [(''features'', JArr example_features)]))))
               = Some (JStr (if p = 1 then ''Benign'' else ''Malignant''))
           \<and> field ''probabilities'' (fst (predict example_numerics example_globals
                    (Inr (JObj [(''features'', JArr example_features)]))))
               = Some (JObj [(''malignant'', JFloat (round2 example_numerics (times100 example_numerics pm))),
                             (''benign'', JFloat (round2 example_numerics (times100 example_numerics pb)))]))"
proof -
  have st: "status_of (fst (predict example_numerics example_globals
                     (Inr (JObj [(''features'', JArr example_features)])))) = 200"
    by (simp add: example_predict_answer)
  from st predict_uses_scaled_features [OF st] show ?thesis
    by (rule conjI)
qed

subsection \<open>The label of a prediction\<close>





subsection \<open>The confidence of a prediction\<close>

lemma mono_max:
  fixes f :: "'f::linorder \<Rightarrow> 'f"
  assumes "mono f"
  shows "f (max x y) = max (f x) (f y)"
proof (cases "x \<le> y")
  case True
  with assms have "f x \<le> f y" by (rule monoD)
  with True show ?thesis by (simp add: max_def)
next
  case False
  then have "y \<le> x" by simp
  with assms have "f y \<le> f x" by (rule monoD)
  with \<open>y \<le> x\<close> show ?thesis by (auto simp: max_def)
qed

text \<open>
  C8. For a valid request on which the classifier returns the two class probabilities
  \<open>pm\<close> and \<open>pb\<close>, the \<^verbatim>\<open>confidence\<close> returned is the larger of the two,
  multiplied by 100 and rounded to two places, so it is one of the \<^verbatim>\<open>malignant\<close>
  and \<^verbatim>\<open>benign\<close> entries returned; where multiplying by 100 and rounding do not
  change the order of two floats it is the larger of the two entries.
\<close>

theorem predict_confidence_is_max:
  assumes "map_of kvs ''features'' = Some (JArr xs)" and "length xs = 30"
    and "np_array_reshape N (JArr xs) = Inr a"
    and "scaler g = Some sc" and "scaler_transform sc a = Inr s"
    and "model g = Some m" and "model_predict m s = Inr (p # ps)"
    and "model_predict_proba m s = Inr ([pm, pb] # rows)"
  shows "field ''probabilities'' (fst (predict N g (Inr (JObj kvs))))
           = Some (JObj [(''malignant'', JFloat (round2 N (times100 N pm))),
                         (''benign'', JFloat (round2 N (times100 N pb)))])
         \<and> field ''confidence'' (fst (predict N g (Inr (JObj kvs))))
           = Some (JFloat (round2 N (times100 N (max pm pb))))
         \<and> (round2 N (times100 N (max pm pb)) = round2 N (times100 N pm)
            \<or> round2 N (times100 N (max pm pb)) = round2 N (times100 N pb))
         \<and> (mono (\<lambda>x. round2 N (times100 N x)) \<longrightarrow>
              field ''confidence'' (fst (predict N g (Inr (JObj kvs))))
                = Some (JFloat (max (round2 N (times100 N pm)) (round2 N (times100 N pb)))))"
proof -
  have m: "fold (\<lambda>y m. if m < y then y else m) [pb] pm = max pm pb"
    by (auto simp: max_def)
  have "predict N g (Inr (JObj kvs)) =
          (case predict_infer N g (JArr xs) of
              (Inl e, calls) \<Rightarrow> (Json_response 500 (JObj [(''error'', JStr (exn_message e))]), calls)
            | (Inr r, calls) \<Rightarrow> (r, calls))"
    using assms(1,2) by (rule predict_valid)
  then have r: "fst (predict N g (Inr (JObj kvs))) = Json_response 200 (JObj
              [(''prediction'', JInt p),
               (''label'', JStr (if p = 1 then ''Benign'' else ''Malignant'')),
               (''confidence'', JFloat (round2 N (times100 N (max pm pb)))),
               (''probabilities'', JObj
                  [(''malignant'', JFloat (round2 N (times100 N pm))),
                   (''benign'', JFloat (round2 N (times100 N pb)))])])"
    using m by (simp add: predict_infer_success [OF assms(3-8)])
  have c: "field ''confidence'' (fst (predict N g (Inr (JObj kvs))))
           = Some (JFloat (round2 N (times100 N (max pm pb))))"
    using r by simp
  have "field ''probabilities'' (fst (predict N g (Inr (JObj kvs))))
           = Some (JObj [(''malignant'', JFloat (round2 N (times100 N pm))),
                         (''benign'', JFloat (round2 N (times100 N pb)))])"
    using r by simp
  moreover have "round2 N (times100 N (max pm pb)) = round2 N (times100 N pm)
            \<or> round2 N (times100 N (max pm pb)) = round2 N (times100 N pb)"
    by (simp add: max_def)
  moreover have "mono (\<lambda>x. round2 N (times100 N x)) \<longrightarrow>
              field ''confidence'' (fst (predict N g (Inr (JObj kvs))))
                = Some (JFloat (max (round2 N (times100 N pm)) (round2 N (times100 N pb))))"
    using c mono_max [where f = "\<lambda>x. round2 N (times100 N x)" and x = pm and y = pb]
    by simp
  ultimately show ?thesis using c by blast
qed

lemma example_rounding_mono:
  "mono (\<lambda>x. round2 example_numerics (times100 example_numerics x))"
proof (rule monoI)
  fix x y :: rat
  assume "x \<le> y"
  then have "\<lfloor>x * 100 * 100 + 1 / 2\<rfloor> \<le> \<lfloor>y * 100 * 100 + 1 / 2\<rfloor>"
    by (intro floor_mono) simp
  then have "(of_int \<lfloor>x * 100 * 100 + 1 / 2\<rfloor> :: rat) \<le> of_int \<lfloor>y * 100 * 100 + 1 / 2\<rfloor>"
    by simp
  then show "round2 example_numerics (times100 example_numerics x)
               \<le> round2 example_numerics (times100 example_numerics y)"
    by (simp add: example_numerics_def divide_right_mono)
qed

theorem predict_confidence_is_max_witness:
  "mono (\<lambda>x. round2 example_numerics (times100 example_numerics x))
   \<and> model_predict_proba example_model [JArr example_scaled]
        = Inr [[12345 / 100000, 87655 / 100000]]
   \<and> field ''probabilities'' (fst (predict example_numerics example_globals
                     (Inr (JObj [(''features'', JArr example_features)]))))
       = Some (JObj [(''malignant'', JFloat (1235 / 100)), (''benign'', JFloat (8766 / 100))])
   \<and> field ''confidence'' (fst (predict example_numerics example_globals
                     (Inr (JObj [(''features'', JArr example_features)]))))
       = Some (JFloat (max (1235 / 100) (8766 / 100)))"
proof -
  note shape = example_request_shape
  note inst = predict_confidence_is_max
         [where N = example_numerics and g = example_globals and ps = "[]" and rows = "[]",
          OF shape [THEN conjunct1] shape [THEN conjunct2, THEN conjunct1]
             example_array example_loaded [THEN conjunct1] example_transform
             example_loaded [THEN conjunct2] example_predict example_predict_proba]
  from inst example_rounding_mono example_predict_proba show ?thesis
    by (simp add: example_numerics_def)
qed

section \<open>Properties of the application\<close>

subsection \<open>What a request leaves behind\<close>

lemma read_only_transform:
  "read_only M \<Longrightarrow> transform_method M s x = (r, s') \<Longrightarrow> s' = s"
  by (metis read_only_def snd_conv)

lemma read_only_predict:
  "read_only M \<Longrightarrow> predict_method M m x = (r, m') \<Longrightarrow> m' = m"
  by (metis read_only_def snd_conv)

lemma read_only_predict_proba:
  "read_only M \<Longrightarrow> predict_proba_method M m x = (r, m') \<Longrightarrow> m' = m"
  by (metis read_only_def snd_conv)

lemma heap_same_scaler:
  "the_scaler h = Some sc \<Longrightarrow> h\<lparr>the_scaler := Some sc\<rparr> = h"
  by (cases h) simp

lemma heap_same_model:
  "the_model h = Some m \<Longrightarrow> h\<lparr>the_model := Some m\<rparr> = h"
  by (cases h) simp

text \<open>
  With methods that leave their objects alone, the views on the objects are the views on
  the records of functions, and the objects are as before.
\<close>

lemma predict_infer_on_read_only:
  assumes "read_only M"
  shows "predict_infer_on N M h features = (predict_infer N (as_globals M h) features, h)"
proof (cases "np_array_reshape N features")
  case (Inl e)
  then show ?thesis by (simp add: predict_infer_on_def predict_infer_def)
next
  case a: (Inr a)
  show ?thesis
  proof (cases "the_scaler h")
    case None
    with a show ?thesis
      by (simp add: predict_infer_on_def predict_infer_def as_globals_def)
  next
    case sc: (Some sc)
    obtain r1 sc' where t: "transform_method M sc a = (r1, sc')"
      by (cases "transform_method M sc a")
    with assms have sc': "sc' = sc" by (rule read_only_transform)
    show ?thesis
    proof (cases r1)
      case (Inl e)
      with a sc t sc' show ?thesis
        by (simp add: predict_infer_on_def predict_infer_def as_globals_def heap_same_scaler)
    next
      case s: (Inr s)
      show ?thesis
      proof (cases "the_model h")
        case None
        with a sc t sc' s show ?thesis
          by (simp add: predict_infer_on_def predict_infer_def as_globals_def heap_same_scaler)
      next
        case m: (Some m)
        obtain r2 m' where p: "predict_method M m s = (r2, m')"
          by (cases "predict_method M m s")
        with assms have m': "m' = m" by (rule read_only_predict)
        obtain r3 m'' where pp: "predict_proba_method M m s = (r3, m'')"
          by (cases "predict_proba_method M m s")
        with assms have m'': "m'' = m" by (rule read_only_predict_proba)
        from a sc t sc' s m p m' pp m'' show ?thesis
          by (simp add: predict_infer_on_def predict_infer_def as_globals_def
                heap_same_scaler heap_same_model
              split: sum.splits)
      qed
    qed
  qed
qed

lemma predict_on_read_only:
  assumes "read_only M"
  shows "predict_on N M h req = (predict N (as_globals M h) req, h)"
proof -
  have "predict_try_on N M h req = (predict_try N (as_globals M h) req, h)"
    by (simp add: predict_try_on_def predict_try_def predict_infer_on_read_only [OF assms]
          split: sum.splits bool.splits)
  then show ?thesis
    by (simp add: predict_on_def predict_def split: prod.splits sum.splits)
qed

lemma serve_on_read_only:
  assumes "read_only M"
  shows "serve_on N M h r = (fst (serve N (as_globals M h) r), h)"
  by (cases r)
     (simp_all add: predict_on_read_only [OF assms] get_features_on_def get_features_def
        health_on_def health_def as_globals_def)

text \<open>
  C5. With a library whose inference methods leave their objects alone, a request to any of
  the four API routes leaves the objects behind \<^verbatim>\<open>model\<close>, \<^verbatim>\<open>scaler\<close> and
  \<^verbatim>\<open>feature_names\<close> as they were, and the same request served again, after the first,
  gets the same response.
\<close>

theorem serve_stateless:
  assumes "read_only M"
  shows "snd (serve_on N M h r) = h
         \<and> fst (serve_on N M (snd (serve_on N M h r)) r) = fst (serve_on N M h r)"
  by (simp add: serve_on_read_only [OF assms])

lemma example_methods_read_only:
  "read_only example_methods"
  by (simp add: read_only_def example_methods_def)

theorem serve_stateless_witness:
  "read_only example_methods
   \<and> snd (serve_on example_numerics example_methods example_heap
            (POST_predict (Inr (JObj [(''features'', JArr example_features)])))) = example_heap
   \<and> fst (serve_on example_numerics example_methods
            (snd (serve_on example_numerics example_methods example_heap
                    (POST_predict (Inr (JObj [(''features'', JArr example_features)])))))
            (POST_predict (Inr (JObj [(''features'', JArr example_features)]))))
       = fst (serve_on example_numerics example_methods example_heap
                (POST_predict (Inr (JObj [(''features'', JArr example_features)]))))"
  using example_methods_read_only serve_stateless [OF example_methods_read_only]
  by blast

text \<open>
  The hypothesis is needed. With a scaler that counts its calls and refuses all but the
  first, a request changes the scaler, and the same request served again gets another
  response.
\<close>

lemma counting_scaler_is_changed:
  "the_scaler (snd (serve_on example_numerics counting_methods counting_heap
                      (POST_predict (Inr (JObj [(''features'', JArr example_features)])))))
     = Some 1
   \<and> status_of (fst (fst (serve_on example_numerics counting_methods counting_heap
                      (POST_predict (Inr (JObj [(''features'', JArr example_features)])))))) = 200
   \<and> status_of (fst (fst (serve_on example_numerics counting_methods
                      (snd (serve_on example_numerics counting_methods counting_heap
                              (POST_predict (Inr (JObj [(''features'', JArr example_features)])))))
                      (POST_predict (Inr (JObj [(''features'', JArr example_features)])))))) = 500"
proof -
  let ?req = "Inr (JObj [(''features'', JArr example_features)]) :: pyexn + rat json"
  have "\<exists>r. predict_infer_on example_numerics counting_methods counting_heap
                 (JArr example_features)
     = ((Inr r,
         [Call_transform [JArr example_features], Call_predict [JArr example_scaled],
          Call_predict_proba [JArr example_scaled]]),
        counting_heap\<lparr>the_scaler := Some 1\<rparr>)
     \<and> status_of r = 200"
    using example_transform example_predict example_predict_proba
    by (simp add: predict_infer_on_def counting_methods_def counting_heap_def
          example_numerics_def index_array_def predict_result_def jsonify_def)
  then obtain r where
    first: "predict_infer_on example_numerics counting_methods counting_heap
                 (JArr example_features)
     = ((Inr r,
         [Call_transform [JArr example_features], Call_predict [JArr example_scaled],
          Call_predict_proba [JArr example_scaled]]),
        counting_heap\<lparr>the_scaler := Some 1\<rparr>)"
    and r: "status_of r = 200"
    by blast
  have second: "predict_infer_on example_numerics counting_methods
                  (counting_heap\<lparr>the_scaler := Some 1\<rparr>) (JArr example_features)
     = ((Inl (PyExn ''RuntimeError'' ''used up''), [Call_transform [JArr example_features]]),
        counting_heap\<lparr>the_scaler := Some 2\<rparr>)"
    by (simp add: predict_infer_on_def counting_methods_def counting_heap_def
          example_numerics_def)
  have valid: "predict_try_on example_numerics counting_methods h ?req
               = predict_infer_on example_numerics counting_methods h (JArr example_features)"
    for h :: "(nat, (rat, rat json list) model_obj) heap"
    using example_request_shape by (simp add: predict_try_on_def)
  have one: "predict_on example_numerics counting_methods counting_heap ?req
     = ((r, [Call_transform [JArr example_features], Call_predict [JArr example_scaled],
             Call_predict_proba [JArr example_scaled]]),
        counting_heap\<lparr>the_scaler := Some 1\<rparr>)"
    using first by (simp add: predict_on_def valid)
  have two: "predict_on example_numerics counting_methods
               (counting_heap\<lparr>the_scaler := Some 1\<rparr>) ?req
     = ((Json_response 500 (JObj [(''error'', JStr ''used up'')]),
         [Call_transform [JArr example_features]]),
        counting_heap\<lparr>the_scaler := Some 2\<rparr>)"
    using second by (simp add: predict_on_def valid jsonify_status_def)
  from one two r show ?thesis
    by simp
qed

text \<open>
  C9. The \<^verbatim>\<open>count\<close> that \<^verbatim>\<open>/api/features\<close> returns is the length of the
  \<^verbatim>\<open>features\<close> list it returns; with the feature names loaded the answer is a 200
  holding both.
\<close>

theorem get_features_count:
  "(field ''features'' (get_features g) = Some (JArr xs) \<longrightarrow>
      field ''count'' (get_features g) = Some (JInt (int (length xs))))
   \<and> (feature_names g = Some names \<longrightarrow>
      get_features g = Json_response 200 (JObj
        [(''features'', JArr (map JStr names)), (''count'', JInt (int (length names)))]))"
  by (cases "feature_names g") (auto simp: get_features_def jsonify_def)

theorem get_features_count_witness:
  "feature_names example_globals = Some [''mean radius'', ''mean texture'']
   \<and> field ''features'' (get_features example_globals)
       = Some (JArr [JStr ''mean radius'', JStr ''mean texture''])
   \<and> field ''count'' (get_features example_globals) = Some (JInt 2)"
proof -
  have n: "feature_names example_globals = Some [''mean radius'', ''mean texture'']"
    by (simp add: example_globals_def)
  with get_features_count [of example_globals _ "[''mean radius'', ''mean texture'']"]
  have r: "get_features example_globals = Json_response 200 (JObj
        [(''features'', JArr (map JStr [''mean radius'', ''mean texture''])),
         (''count'', JInt (int (length [''mean radius'', ''mean texture''])))])"
    by blast
  then have f: "field ''features'' (get_features example_globals)
       = Some (JArr [JStr ''mean radius'', JStr ''mean texture''])"
    by simp
  with get_features_count
         [of example_globals "[JStr ''mean radius'', JStr ''mean texture'']"]
  have "field ''count'' (get_features example_globals) = Some (JInt 2)"
    by simp
  with n f show ?thesis by simp
qed

subsection \<open>Exceptions after the validation\<close>

lemma predict_infer_array_raises:
  assumes "np_array_reshape N features = Inl e"
  shows "predict_infer N g features = (Inl e, [])"
  using assms by (simp add: predict_infer_def)

lemma predict_infer_predict_raises:
  assumes "np_array_reshape N features = Inr a"
    and "scaler g = Some sc" and "scaler_transform sc a = Inr s"
    and "model g = Some m" and "model_predict m s = Inl e"
  shows "predict_infer N g features = (Inl e, [Call_transform a, Call_predict s])"
  using assms by (simp add: predict_infer_def)

lemma predict_infer_predict_proba_raises:
  assumes "np_array_reshape N features = Inr a"
    and "scaler g = Some sc" and "scaler_transform sc a = Inr s"
    and "model g = Some m" and "model_predict m s = Inr (p # ps)"
    and "model_predict_proba m s = Inl e"
  shows "predict_infer N g features
           = (Inl e, [Call_transform a, Call_predict s, Call_predict_proba s])"
  using assms by (simp add: predict_infer_def index_array_def)

text \<open>
  C10. For a request that has passed the validation, an exception \<open>e\<close> raised by any
  later step is answered with status 500 and an \<^verbatim>\<open>error\<close> entry holding the
  message of \<open>e\<close>, and the globals are unchanged. The steps that call the library are
  spelled out: the conversion to an array, the scaler's \<^verbatim>\<open>transform\<close>, the
  classifier's \<^verbatim>\<open>predict\<close> and its \<^verbatim>\<open>predict_proba\<close>.
\<close>

theorem predict_exception_gives_500:
  assumes "map_of kvs ''features'' = Some (JArr xs)" and "length xs = 30"
  shows "(predict_infer N g (JArr xs) = (Inl e, calls) \<longrightarrow>
            serve N g (POST_predict (Inr (JObj kvs)))
              = ((Json_response 500 (JObj [(''error'', JStr (exn_message e))]), calls), g))
         \<and> (np_array_reshape N (JArr xs) = Inl e \<longrightarrow>
            serve N g (POST_predict (Inr (JObj kvs)))
              = ((Json_response 500 (JObj [(''error'', JStr (exn_message e))]), []), g))
         \<and> (np_array_reshape N (JArr xs) = Inr a \<and> scaler g = Some sc
              \<and> scaler_transform sc a = Inl e \<longrightarrow>
            serve N g (POST_predict (Inr (JObj kvs)))
              = ((Json_response 500 (JObj [(''error'', JStr (exn_message e))]),
                  [Call_transform a]), g))
         \<and> (np_array_reshape N (JArr xs) = Inr a \<and> scaler g = Some sc
              \<and> scaler_transform sc a = Inr s \<and> model g = Some m
              \<and> model_predict m s = Inl e \<longrightarrow>
            serve N g (POST_predict (Inr (JObj kvs)))
              = ((Json_response 500 (JObj [(''error'', JStr (exn_message e))]),
                  [Call_transform a, Call_predict s]), g))
         \<and> (np_array_reshape N (JArr xs) = Inr a \<and> scaler g = Some sc
              \<and> scaler_transform sc a = Inr s \<and> model g = Some m
              \<and> model_predict m s = Inr (p # ps) \<and> model_predict_proba m s = Inl e \<longrightarrow>
            serve N g (POST_predict (Inr (JObj kvs)))
              = ((Json_response 500 (JObj [(''error'', JStr (exn_message e))]),
                  [Call_transform a, Call_predict s, Call_predict_proba s]), g))"
proof -
  have general: "serve N g (POST_predict (Inr (JObj kvs)))
              = ((Json_response 500 (JObj [(''error'', JStr (exn_message e))]), cs), g)"
    if "predict_infer N g (JArr xs) = (Inl e, cs)" for cs
    using that by (simp add: predict_valid [OF assms])
  show ?thesis
  proof (intro conjI impI)
    assume "predict_infer N g (JArr xs) = (Inl e, calls)"
    then show "serve N g (POST_predict (Inr (JObj kvs)))
              = ((Json_response 500 (JObj [(''error'', JStr (exn_message e))]), calls), g)"
      by (rule general)
  next
    assume "np_array_reshape N (JArr xs) = Inl e"
    then show "serve N g (POST_predict (Inr (JObj kvs)))
              = ((Json_response 500 (JObj [(''error'', JStr (exn_message e))]), []), g)"
      by (intro general predict_infer_array_raises)
  next
    assume "np_array_reshape N (JArr xs) = Inr a \<and> scaler g = Some sc
              \<and> scaler_transform sc a = Inl e"
    then show "serve N g (POST_predict (Inr (JObj kvs)))
              = ((Json_response 500 (JObj [(''error'', JStr (exn_message e))]),
                  [Call_transform a]), g)"
      by (intro general predict_infer_transform_raises [where sc = sc]) simp_all
  next
    assume "np_array_reshape N (JArr xs) = Inr a \<and> scaler g = Some sc
              \<and> scaler_transform sc a = Inr s \<and> model g = Some m
              \<and> model_predict m s = Inl e"
    then show "serve N g (POST_predict (Inr (JObj kvs)))
              = ((Json_response 500 (JObj [(''error'', JStr (exn_message e))]),
                  [Call_transform a, Call_predict s]), g)"
      by (intro general predict_infer_predict_raises [where sc = sc and m = m]) simp_all
  next
    assume "np_array_reshape N (JArr xs) = Inr a \<and> scaler g = Some sc
              \<and> scaler_transform sc a = Inr s \<and> model g = Some m
              \<and> model_predict m s = Inr (p # ps) \<and> model_predict_proba m s = Inl e"
    then show "serve N g (POST_predict (Inr (JObj kvs)))
              = ((Json_response 500 (JObj [(''error'', JStr (exn_message e))]),
                  [Call_transform a, Call_predict s, Call_predict_proba s]), g)"
      by (intro general
            predict_infer_predict_proba_raises [where sc = sc and m = m and p = p and ps = ps])
         simp_all
  qed
qed

theorem predict_exception_gives_500_witness:
  "(map_of [(''features'', JArr text_features)] ''features'' = Some (JArr text_features)
    \<and> length text_features = 30 \<and> \<not> list_all is_number text_features)
   \<and> scaler_transform example_scaler [JArr text_features]
       = Inl (PyExn ''ValueError'' ''could not convert to float'')
   \<and> serve example_numerics example_globals
        (POST_predict (Inr (JObj [(''features'', JArr text_features)])))
       = ((Json_response 500 (JObj [(''error'', JStr ''could not convert to float'')]),
           [Call_transform [JArr text_features]]), example_globals)"
proof -
  note shape = text_request_shape
  note inst = predict_exception_gives_500
         [where N = example_numerics and g = example_globals
            and e = "PyExn ''ValueError'' ''could not convert to float''"
            and a = "[JArr text_features]" and sc = example_scaler,
          OF shape [THEN conjunct1] shape [THEN conjunct2, THEN conjunct1],
          THEN conjunct2, THEN conjunct2, THEN conjunct1]
  from inst example_array [of text_features] example_loaded text_transform
  have "serve example_numerics example_globals
        (POST_predict (Inr (JObj [(''features'', JArr text_features)])))
       = ((Json_response 500 (JObj [(''error'', JStr ''could not convert to float'')]),
           [Call_transform [JArr text_features]]), example_globals)"
    by simp
  with shape text_transform show ?thesis by blast
qed

section \<open>Properties of \<^verbatim>\<open>load_model\<close>\<close>

text \<open>
  C6. \<^verbatim>\<open>load_model\<close> returns exactly when its library calls return and the two
  files can be written, and then: the data set is the one \<^verbatim>\<open>load_breast_cancer\<close>
  gives; \<open>X\<close> and \<open>Y\<close> are split with test size 0.2 and random state 2; the scaler is
  fitted on \<open>X_train\<close>, the classifier on the scaled \<open>X_train\<close> and \<open>Y_train\<close>; the
  globals hold the fitted scaler, the fitted classifier and the feature names; and
  \<^verbatim>\<open>model.pkl\<close> and \<^verbatim>\<open>scaler.pkl\<close> hold the classifier and the scaler.
\<close>

theorem load_model_trains_and_persists:
  "load_model L w g = (None, g', w') \<longleftrightarrow>
     (\<exists>ds frame0 frame X Y X_train X_test Y_train Y_test sc0 sc X_train_scaled X_test_scaled
         m0 m.
        load_breast_cancer L = Inr ds
        \<and> DataFrame L (bunch_data ds) (bunch_feature_names ds) = Inr frame0
        \<and> frame_setitem L frame0 ''label'' (bunch_target ds) = Inr frame
        \<and> frame_drop L frame ''label'' = Inr X
        \<and> frame_getitem L frame ''label'' = Inr Y
        \<and> train_test_split L X Y (2 / 10) 2 = Inr (X_train, X_test, Y_train, Y_test)
        \<and> StandardScaler L = Inr sc0
        \<and> scaler_fit_transform L sc0 X_train = (Inr X_train_scaled, sc)
        \<and> scaler_transform sc X_test = Inr X_test_scaled
        \<and> LogisticRegression L = Inr m0
        \<and> model_fit L m0 X_train_scaled Y_train = (None, m)
        \<and> refused w ''model.pkl'' = None \<and> refused w ''scaler.pkl'' = None
        \<and> g' = g\<lparr>feature_names := Some (bunch_feature_names ds),
                   scaler := Some sc, model := Some m\<rparr>
        \<and> w' = w\<lparr>files := (files w)(''model.pkl'' \<mapsto> Pickled_model m,
                                      ''scaler.pkl'' \<mapsto> Pickled_scaler sc),
                   stdout := stdout w @ [''Model trained and saved successfully!'']\<rparr>)"
proof
  assume "load_model L w g = (None, g', w')"
  then show "(\<exists>ds frame0 frame X Y X_train X_test Y_train Y_test sc0 sc X_train_scaled X_test_scaled
         m0 m.
        load_breast_cancer L = Inr ds
        \<and> DataFrame L (bunch_data ds) (bunch_feature_names ds) = Inr frame0
        \<and> frame_setitem L frame0 ''label'' (bunch_target ds) = Inr frame
        \<and> frame_drop L frame ''label'' = Inr X
        \<and> frame_getitem L frame ''label'' = Inr Y
        \<and> train_test_split L X Y (2 / 10) 2 = Inr (X_train, X_test, Y_train, Y_test)
        \<and> StandardScaler L = Inr sc0
        \<and> scaler_fit_transform L sc0 X_train = (Inr X_train_scaled, sc)
        \<and> scaler_transform sc X_test = Inr X_test_scaled
        \<and> LogisticRegression L = Inr m0
        \<and> model_fit L m0 X_train_scaled Y_train = (None, m)
        \<and> refused w ''model.pkl'' = None \<and> refused w ''scaler.pkl'' = None
        \<and> g' = g\<lparr>feature_names := Some (bunch_feature_names ds),
                   scaler := Some sc, model := Some m\<rparr>
        \<and> w' = w\<lparr>files := (files w)(''model.pkl'' \<mapsto> Pickled_model m,
                                      ''scaler.pkl'' \<mapsto> Pickled_scaler sc),
                   stdout := stdout w @ [''Model trained and saved successfully!'']\<rparr>)"
    by (auto simp: load_model_def joblib_dump_def print_def Let_def
             split: sum.splits prod.splits option.splits)
next
  assume "(\<exists>ds frame0 frame X Y X_train X_test Y_train Y_test sc0 sc X_train_scaled X_test_scaled
         m0 m.
        load_breast_cancer L = Inr ds
        \<and> DataFrame L (bunch_data ds) (bunch_feature_names ds) = Inr frame0
        \<and> frame_setitem L frame0 ''label'' (bunch_target ds) = Inr frame
        \<and> frame_drop L frame ''label'' = Inr X
        \<and> frame_getitem L frame ''label'' = Inr Y
        \<and> train_test_split L X Y (2 / 10) 2 = Inr (X_train, X_test, Y_train, Y_test)
        \<and> StandardScaler L = Inr sc0
        \<and> scaler_fit_transform L sc0 X_train = (Inr X_train_scaled, sc)
        \<and> scaler_transform sc X_test = Inr X_test_scaled
        \<and> LogisticRegression L = Inr m0
        \<and> model_fit L m0 X_train_scaled Y_train = (None, m)
        \<and> refused w ''model.pkl'' = None \<and> refused w ''scaler.pkl'' = None
        \<and> g' = g\<lparr>feature_names := Some (bunch_feature_names ds),
                   scaler := Some sc, model := Some m\<rparr>
        \<and> w' = w\<lparr>files := (files w)(''model.pkl'' \<mapsto> Pickled_model m,
                                      ''scaler.pkl'' \<mapsto> Pickled_scaler sc),
                   stdout := stdout w @ [''Model trained and saved successfully!'']\<rparr>)"
  then show "load_model L w g = (None, g', w')"
    by (auto simp: load_model_def joblib_dump_def print_def Let_def)
qed

lemma example_load_model:
  "load_model example_sklearn empty_world initial_globals
     = (None, trained_globals, trained_world)"
  by (simp add: load_model_def example_sklearn_def example_bunch_def example_scaler_def
        empty_world_def initial_globals_def joblib_dump_def print_def
        trained_globals_def trained_world_def)

theorem load_model_trains_and_persists_witness:
  "load_model example_sklearn empty_world initial_globals
     = (None, trained_globals, trained_world)
   \<and> (\<exists>ds frame0 frame X Y X_train X_test Y_train Y_test sc0 sc X_train_scaled X_test_scaled
         m0 m.
        load_breast_cancer example_sklearn = Inr ds
        \<and> DataFrame example_sklearn (bunch_data ds) (bunch_feature_names ds) = Inr frame0
        \<and> frame_setitem example_sklearn frame0 ''label'' (bunch_target ds) = Inr frame
        \<and> frame_drop example_sklearn frame ''label'' = Inr X
        \<and> frame_getitem example_sklearn frame ''label'' = Inr Y
        \<and> train_test_split example_sklearn X Y (2 / 10) 2 = Inr (X_train, X_test, Y_train, Y_test)
        \<and> StandardScaler example_sklearn = Inr sc0
        \<and> scaler_fit_transform example_sklearn sc0 X_train = (Inr X_train_scaled, sc)
        \<and> scaler_transform sc X_test = Inr X_test_scaled
        \<and> LogisticRegression example_sklearn = Inr m0
        \<and> model_fit example_sklearn m0 X_train_scaled Y_train = (None, m)
        \<and> refused empty_world ''model.pkl'' = None \<and> refused empty_world ''scaler.pkl'' = None
        \<and> trained_globals = initial_globals\<lparr>feature_names := Some (bunch_feature_names ds),
                   scaler := Some sc, model := Some m\<rparr>
        \<and> trained_world = empty_world\<lparr>files := (files empty_world)(''model.pkl'' \<mapsto> Pickled_model m,
                                      ''scaler.pkl'' \<mapsto> Pickled_scaler sc),
                   stdout := stdout empty_world @ [''Model trained and saved successfully!'']\<rparr>)"
  using example_load_model
    load_model_trains_and_persists [THEN iffD1, OF example_load_model]
  by (rule conjI)

text \<open>
  A dump that raises leaves \<^verbatim>\<open>load_model\<close> with its exception: the globals are
  assigned by then, nothing is written and the closing line is not printed.
\<close>

lemma load_model_dump_refused:
  assumes "load_breast_cancer L = Inr ds"
    and "DataFrame L (bunch_data ds) (bunch_feature_names ds) = Inr frame0"
    and "frame_setitem L frame0 ''label'' (bunch_target ds) = Inr frame"
    and "frame_drop L frame ''label'' = Inr X"
    and "frame_getitem L frame ''label'' = Inr Y"
    and "train_test_split L X Y (2 / 10) 2 = Inr (X_train, X_test, Y_train, Y_test)"
    and "StandardScaler L = Inr sc0"
    and "scaler_fit_transform L sc0 X_train = (Inr X_train_scaled, sc)"
    and "scaler_transform sc X_test = Inr X_test_scaled"
    and "LogisticRegression L = Inr m0"
    and "model_fit L m0 X_train_scaled Y_train = (None, m)"
    and "refused w ''model.pkl'' = Some e"
  shows "load_model L w g
           = (Some e,
              g\<lparr>feature_names := Some (bunch_feature_names ds),
                 scaler := Some sc, model := Some m\<rparr>,
              w)"
  using assms by (simp add: load_model_def joblib_dump_def)

lemma example_load_model_blocked:
  "load_model example_sklearn blocked_world initial_globals
     = (Some (PyExn ''IsADirectoryError'' ''[Errno 21] Is a directory''),
        trained_globals, blocked_world)"
  by (simp add: load_model_def example_sklearn_def example_bunch_def example_scaler_def
        blocked_world_def initial_globals_def joblib_dump_def trained_globals_def)

text \<open>After a start-up that returns, the three globals are set.\<close>

lemma startup_loads:
  assumes "startup L w = (None, g, w')"
  shows "model g \<noteq> None \<and> scaler g \<noteq> None \<and> feature_names g \<noteq> None"
  using assms
  by (auto simp: startup_def load_model_def initial_globals_def joblib_dump_def Let_def
           split: sum.splits prod.splits option.splits)

end
